theory Spec2Isabelle
  imports Complex_Main
begin

section \<open>Python values, errors and numpy arrays\<close>

text \<open>
  The exceptions the modelled code can raise. None of them is raised by a
  \<^verbatim>\<open>raise\<close> statement of the repository: \<open>AssertionError\<close> comes from the
  \<^verbatim>\<open>assert\<close> in \<^verbatim>\<open>OffPolicyAlgorithm.__init__\<close>, \<open>AttributeError\<close> from
  reading an attribute that was never assigned, \<open>ZeroDivisionError\<close> from
  \<^verbatim>\<open>%\<close> and \<^verbatim>\<open>/\<close>, and \<open>ValueError\<close> and \<open>IndexError\<close> from numpy.
\<close>

datatype py_error =
  ValueError | IndexError | AttributeError | AssertionError | ZeroDivisionError

text \<open>
  The scalars that reach \<^verbatim>\<open>float(...)\<close> in \<^verbatim>\<open>ReplayBuffer.append\<close>: the
  reward of an environment step is a finite Python float and its done flag a
  Python bool. A float is the real number it denotes.
\<close>

datatype pyscalar = PyBool bool | PyFloat real

fun py_float :: "pyscalar \<Rightarrow> real" where
  "py_float (PyBool b) = (if b then 1 else 0)"
| "py_float (PyFloat x) = x"

text \<open>
  A cell of a float32 array: a finite value or an infinity (no NaN arises from
  a finite float). Storing a float into such a cell rounds it to the nearest
  binary32 number, ties to the even significand, as IEEE 754 and numpy do:
  the exponent is the largest \<open>e\<close> of \<open>[-126, 127]\<close> with \<open>2 ^ e \<le> |x|\<close>, or
  \<open>-126\<close> in the subnormal range; the value is rounded to a multiple of
  \<open>2 ^ (e - 23)\<close>; a result of magnitude \<open>2 ^ 128\<close> overflows to an infinity.
\<close>

datatype float32_value = F32 real | F32_inf | F32_neg_inf

definition pow2 :: "int \<Rightarrow> real" where
  "pow2 e = (if 0 \<le> e then 2 ^ nat e else inverse (2 ^ nat (- e)))"

fun float32_exponent_from :: "nat \<Rightarrow> int \<Rightarrow> real \<Rightarrow> int" where
  "float32_exponent_from 0 e a = e"
| "float32_exponent_from (Suc n) e a =
     (if pow2 e \<le> a then e else float32_exponent_from n (e - 1) a)"

definition float32_exponent :: "real \<Rightarrow> int" where
  "float32_exponent x = float32_exponent_from 253 127 \<bar>x\<bar>"

definition round_half_even :: "real \<Rightarrow> int" where
  "round_half_even y =
     (let f = \<lfloor>y\<rfloor>; r = y - of_int f
      in if r < 1 / 2 then f
         else if 1 / 2 < r then f + 1
         else if even f then f else f + 1)"

definition float32_cast :: "real \<Rightarrow> float32_value" where
  "float32_cast x =
     (let q = pow2 (float32_exponent x - 23);
          y = of_int (round_half_even (x / q)) * q
      in if pow2 128 \<le> y then F32_inf
         else if y \<le> - pow2 128 then F32_neg_inf
         else F32 y)"

datatype dtype = float32 | int64

text \<open>
  The kinds of \<^verbatim>\<open>gym.spaces\<close> objects, each with what determines its
  \<^verbatim>\<open>shape\<close> attribute.
\<close>

datatype space =
  Box "nat list" | Discrete nat | MultiDiscrete "nat list" | MultiBinary nat

fun space_shape :: "space \<Rightarrow> nat list" where
  "space_shape (Box shp) = shp"
| "space_shape (Discrete k) = []"
| "space_shape (MultiDiscrete ks) = [length ks]"
| "space_shape (MultiBinary k) = [k]"

text \<open>
  A numpy array whose leading axis is the slot axis: its shape, its dtype and
  one row per slot. \<^verbatim>\<open>np.empty\<close> leaves the memory uninitialised; a row that
  was never written is \<open>None\<close>.
\<close>

record 'r ndarray =
  nd_shape :: "nat list"
  nd_dtype :: dtype
  nd_rows :: "'r option list"

definition np_empty :: "int \<Rightarrow> nat list \<Rightarrow> dtype \<Rightarrow> py_error + 'r ndarray" where
  "np_empty k shp dt =
     (if k < 0 then Inl ValueError
      else Inr \<lparr>nd_shape = nat k # shp, nd_dtype = dt,
                nd_rows = replicate (nat k) None\<rparr>)"

text \<open>
  \<^verbatim>\<open>a[i] = v\<close> for an integer \<open>i\<close>; a negative index counts from the end.
  The value \<open>v\<close> is taken to have the shape of a row: a value that numpy
  cannot broadcast to the row (a \<open>ValueError\<close>) is outside the type of rows.
\<close>

definition setitem :: "'r ndarray \<Rightarrow> int \<Rightarrow> 'r \<Rightarrow> py_error + 'r ndarray" where
  "setitem a i v =
     (let len = int (length (nd_rows a));
          j = (if i < 0 then i + len else i)
      in if 0 \<le> j \<and> j < len
         then Inr (a\<lparr>nd_rows := (nd_rows a)[nat j := Some v]\<rparr>)
         else Inl IndexError)"

text \<open>
  \<^verbatim>\<open>a[idxes]\<close> for an integer index array: the rows at the indices, in the
  order of the indices; one index out of range raises.
\<close>

definition getitem :: "'r ndarray \<Rightarrow> int list \<Rightarrow> py_error + 'r ndarray" where
  "getitem a idxes =
     (let len = int (length (nd_rows a));
          js = map (\<lambda>i. if i < 0 then i + len else i) idxes
      in if list_all (\<lambda>j. 0 \<le> j \<and> j < len) js
         then Inr \<lparr>nd_shape = length idxes # tl (nd_shape a), nd_dtype = nd_dtype a,
                   nd_rows = map (\<lambda>j. nd_rows a ! nat j) js\<rparr>
         else Inl IndexError)"

text \<open>
  Modelled from numpy's documentation: \<^verbatim>\<open>np.random.randint(low, high, size)\<close>
  returns \<open>size\<close> integers of \<open>[low, high)\<close> and raises \<open>ValueError\<close> when
  \<open>low >= high\<close> or the size is negative; an empty request (size 0) returns
  the empty array before the range is looked at, as numpy does from version
  1.17 on. The process-wide generator is the
  sequence \<open>g\<close> of raw draws still to come, each reduced into the range, so
  every index vector of the range is the outcome for some \<open>g\<close>; the
  probability law of the raw draws is outside the model.
\<close>

definition np_random_randint ::
  "int \<Rightarrow> int \<Rightarrow> int \<Rightarrow> (nat \<Rightarrow> nat) \<Rightarrow> py_error + (int list \<times> (nat \<Rightarrow> nat))" where
  "np_random_randint low high sz g =
     (if sz = 0 then Inr ([], g)
      else if sz < 0 \<or> high \<le> low then Inl ValueError
      else Inr (map (\<lambda>i. low + int (g i) mod (high - low)) [0..<nat sz],
                \<lambda>i. g (i + nat sz)))"

section \<open>The replay buffer of \<^verbatim>\<open>rljax/common/buffer.py\<close>\<close>

record ('s, 'a) ReplayBuffer =
  rb_n :: int
  rb_p :: int
  rb_buffer_size :: int
  rb_state :: "'s ndarray"
  rb_reward :: "float32_value list ndarray"
  rb_done :: "float32_value list ndarray"
  rb_next_state :: "'s ndarray"
  rb_action :: "'a ndarray option"

text \<open>
  \<^verbatim>\<open>ReplayBuffer.__init__\<close>. The last branch of the source is the bare
  expression \<^verbatim>\<open>NotImplementedError\<close>, which raises nothing: the attribute
  \<^verbatim>\<open>action\<close> is then never assigned (\<open>None\<close> here). The rows of the reward
  and done arrays have shape \<open>(1,)\<close>: lists of one float32 cell. A row of the
  state and action arrays is a value of the opaque types \<open>'s\<close> and \<open>'a\<close>: the
  row as the array holds it.
\<close>

definition ReplayBuffer_init ::
  "int \<Rightarrow> space \<Rightarrow> space \<Rightarrow> py_error + ('s, 'a) ReplayBuffer" where
  "ReplayBuffer_init buffer_size state_space action_space =
     (case np_empty buffer_size (space_shape state_space) float32 of
        Inl e \<Rightarrow> Inl e
      | Inr st \<Rightarrow>
     (case np_empty buffer_size [1] float32 of
        Inl e \<Rightarrow> Inl e
      | Inr rw \<Rightarrow>
     (case np_empty buffer_size [1] float32 of
        Inl e \<Rightarrow> Inl e
      | Inr dn \<Rightarrow>
     (case np_empty buffer_size (space_shape state_space) float32 of
        Inl e \<Rightarrow> Inl e
      | Inr ns \<Rightarrow>
     (case action_space of
        Box shp \<Rightarrow>
          (case np_empty buffer_size shp float32 of
             Inl e \<Rightarrow> Inl e
           | Inr ac \<Rightarrow>
               Inr \<lparr>rb_n = 0, rb_p = 0, rb_buffer_size = buffer_size, rb_state = st,
                    rb_reward = rw, rb_done = dn, rb_next_state = ns,
                    rb_action = Some ac\<rparr>)
      | Discrete k \<Rightarrow>
          (case np_empty buffer_size [1] int64 of
             Inl e \<Rightarrow> Inl e
           | Inr ac \<Rightarrow>
               Inr \<lparr>rb_n = 0, rb_p = 0, rb_buffer_size = buffer_size, rb_state = st,
                    rb_reward = rw, rb_done = dn, rb_next_state = ns,
                    rb_action = Some ac\<rparr>)
      | _ \<Rightarrow>
          Inr \<lparr>rb_n = 0, rb_p = 0, rb_buffer_size = buffer_size, rb_state = st,
               rb_reward = rw, rb_done = dn, rb_next_state = ns,
               rb_action = None\<rparr>)))))"

text \<open>
  \<^verbatim>\<open>ReplayBuffer.append\<close> mutates the buffer in place, statement by
  statement; an exception leaves the writes made before it. A call that
  raises is \<open>Inl (e, b')\<close> with the buffer \<open>b'\<close> as the exception leaves it.
  \<^verbatim>\<open>float(reward)\<close> and \<open>float(done)\<close> are cast to float32 by the store into
  the float32 arrays.
\<close>

definition ReplayBuffer_append ::
  "('s, 'a) ReplayBuffer \<Rightarrow> 's \<Rightarrow> 'a \<Rightarrow> pyscalar \<Rightarrow> pyscalar \<Rightarrow> 's
     \<Rightarrow> (py_error \<times> ('s, 'a) ReplayBuffer) + ('s, 'a) ReplayBuffer" where
  "ReplayBuffer_append b state action reward done next_state =
     (case setitem (rb_state b) (rb_p b) state of
        Inl e \<Rightarrow> Inl (e, b)
      | Inr st \<Rightarrow> let b1 = b\<lparr>rb_state := st\<rparr> in
     (case rb_action b1 of
        None \<Rightarrow> Inl (AttributeError, b1)
      | Some arr \<Rightarrow>
     (case setitem arr (rb_p b1) action of
        Inl e \<Rightarrow> Inl (e, b1)
      | Inr ac \<Rightarrow> let b2 = b1\<lparr>rb_action := Some ac\<rparr> in
     (case setitem (rb_reward b2) (rb_p b2) [float32_cast (py_float reward)] of
        Inl e \<Rightarrow> Inl (e, b2)
      | Inr rw \<Rightarrow> let b3 = b2\<lparr>rb_reward := rw\<rparr> in
     (case setitem (rb_done b3) (rb_p b3) [float32_cast (py_float done)] of
        Inl e \<Rightarrow> Inl (e, b3)
      | Inr dn \<Rightarrow> let b4 = b3\<lparr>rb_done := dn\<rparr> in
     (case setitem (rb_next_state b4) (rb_p b4) next_state of
        Inl e \<Rightarrow> Inl (e, b4)
      | Inr ns \<Rightarrow> let b5 = b4\<lparr>rb_next_state := ns\<rparr> in
        if rb_buffer_size b5 = 0 then Inl (ZeroDivisionError, b5)
        else Inr (b5\<lparr>rb_p := (rb_p b5 + 1) mod rb_buffer_size b5,
                      rb_n := min (rb_n b5 + 1) (rb_buffer_size b5)\<rparr>)))))))"

text \<open>
  \<^verbatim>\<open>ReplayBuffer.sample\<close>. The five gathers run in the order of the
  returned tuple; \<^verbatim>\<open>jax.device_put\<close> moves an array to the device and
  keeps its shape and its rows (that JAX narrows a 64-bit dtype when its
  64-bit mode is off is not modelled). The result is the batch and the
  generator after the draw.
\<close>

definition ReplayBuffer_sample ::
  "('s, 'a) ReplayBuffer \<Rightarrow> int \<Rightarrow> (nat \<Rightarrow> nat)
     \<Rightarrow> py_error + (('s ndarray \<times> 'a ndarray \<times> float32_value list ndarray \<times> float32_value list ndarray
                       \<times> 's ndarray) \<times> (nat \<Rightarrow> nat))" where
  "ReplayBuffer_sample b batch_size g =
     (case np_random_randint 0 (rb_n b) batch_size g of
        Inl e \<Rightarrow> Inl e
      | Inr (idxes, g') \<Rightarrow>
     (case getitem (rb_state b) idxes of
        Inl e \<Rightarrow> Inl e
      | Inr st \<Rightarrow>
     (case rb_action b of
        None \<Rightarrow> Inl AttributeError
      | Some arr \<Rightarrow>
     (case getitem arr idxes of
        Inl e \<Rightarrow> Inl e
      | Inr ac \<Rightarrow>
     (case getitem (rb_reward b) idxes of
        Inl e \<Rightarrow> Inl e
      | Inr rw \<Rightarrow>
     (case getitem (rb_done b) idxes of
        Inl e \<Rightarrow> Inl e
      | Inr dn \<Rightarrow>
     (case getitem (rb_next_state b) idxes of
        Inl e \<Rightarrow> Inl e
      | Inr ns \<Rightarrow> Inr ((st, ac, rw, dn, ns), g'))))))))"

section \<open>Histories of appends\<close>

text \<open>The arguments of one call of \<^verbatim>\<open>append\<close>.\<close>

record ('s, 'a) transition =
  tr_state :: 's
  tr_action :: 'a
  tr_reward :: pyscalar
  tr_done :: pyscalar
  tr_next_state :: 's

text \<open>
  A sequence of calls of \<^verbatim>\<open>append\<close>, in order; an exception ends the
  sequence.
\<close>

fun append_all ::
  "('s, 'a) ReplayBuffer \<Rightarrow> ('s, 'a) transition list
     \<Rightarrow> (py_error \<times> ('s, 'a) ReplayBuffer) + ('s, 'a) ReplayBuffer" where
  "append_all b [] = Inr b"
| "append_all b (t # ts) =
     (case ReplayBuffer_append b (tr_state t) (tr_action t) (tr_reward t) (tr_done t)
             (tr_next_state t) of
        Inl eb \<Rightarrow> Inl eb
      | Inr b' \<Rightarrow> append_all b' ts)"

text \<open>What a slot holds once a transition was written into it.\<close>

definition stored ::
  "('s, 'a) transition \<Rightarrow> 's \<times> 'a \<times> float32_value list \<times> float32_value list \<times> 's" where
  "stored t =
     (tr_state t, tr_action t, [float32_cast (py_float (tr_reward t))], [float32_cast (py_float (tr_done t))],
      tr_next_state t)"

text \<open>Row \<open>i\<close> of an array: \<open>None\<close> when out of range or never written.\<close>

definition row :: "'r ndarray \<Rightarrow> int \<Rightarrow> 'r option" where
  "row a i = (if 0 \<le> i \<and> i < int (length (nd_rows a)) then nd_rows a ! nat i else None)"

text \<open>
  The content of slot \<open>i\<close> across the five arrays: \<open>Some\<close> when every array
  has a written row there.
\<close>

fun all_written ::
  "'s option \<Rightarrow> 'a option \<Rightarrow> 'r option \<Rightarrow> 'r option \<Rightarrow> 's option
     \<Rightarrow> ('s \<times> 'a \<times> 'r \<times> 'r \<times> 's) option" where
  "all_written (Some s) (Some a) (Some r) (Some d) (Some s') = Some (s, a, r, d, s')"
| "all_written _ _ _ _ _ = None"

definition slot ::
  "('s, 'a) ReplayBuffer \<Rightarrow> int \<Rightarrow> ('s \<times> 'a \<times> float32_value list \<times> float32_value list \<times> 's) option" where
  "slot b i =
     (case rb_action b of
        None \<Rightarrow> None
      | Some arr \<Rightarrow>
          all_written (row (rb_state b) i) (row arr i) (row (rb_reward b) i)
            (row (rb_done b) i) (row (rb_next_state b) i))"

text \<open>The bounds of the data model: cursor in \<open>[0, C)\<close>, fill count in \<open>[0, C]\<close>.\<close>

definition rb_bounds :: "('s, 'a) ReplayBuffer \<Rightarrow> bool" where
  "rb_bounds b =
     (0 \<le> rb_p b \<and> rb_p b < rb_buffer_size b \<and> 0 \<le> rb_n b \<and> rb_n b \<le> rb_buffer_size b)"

text \<open>
  A buffer as the constructor allocates it for a supported action space: the
  action array exists and every array has one row per slot.
\<close>

definition rb_allocated :: "('s, 'a) ReplayBuffer \<Rightarrow> bool" where
  "rb_allocated b =
     (case rb_action b of
        None \<Rightarrow> False
      | Some arr \<Rightarrow>
          int (length (nd_rows (rb_state b))) = rb_buffer_size b \<and>
          int (length (nd_rows arr)) = rb_buffer_size b \<and>
          int (length (nd_rows (rb_reward b))) = rb_buffer_size b \<and>
          int (length (nd_rows (rb_done b))) = rb_buffer_size b \<and>
          int (length (nd_rows (rb_next_state b))) = rb_buffer_size b)"

text \<open>
  The state of a buffer after the appends \<open>ts\<close>, made since construction: the
  cursor and the fill count follow the number of appends, and the slot of each
  of the most recent appends (as many as the capacity) holds its transition.
\<close>

definition rb_holds :: "('s, 'a) ReplayBuffer \<Rightarrow> ('s, 'a) transition list \<Rightarrow> bool" where
  "rb_holds b ts =
     (rb_allocated b \<and> 1 \<le> rb_buffer_size b \<and>
      rb_p b = int (length ts) mod rb_buffer_size b \<and>
      rb_n b = min (int (length ts)) (rb_buffer_size b) \<and>
      (\<forall>j < length ts. int (length ts) \<le> int j + rb_buffer_size b \<longrightarrow>
         slot b (int j mod rb_buffer_size b) = Some (stored (ts ! j))))"

section \<open>The algorithm base classes of \<^verbatim>\<open>rljax/algorithm/base.py\<close>\<close>

text \<open>
  Python truthiness of an optional number: \<^verbatim>\<open>None\<close> and zero are false.
\<close>

fun truthy :: "'n::zero option \<Rightarrow> bool" where
  "truthy None = False"
| "truthy (Some x) = (x \<noteq> 0)"

text \<open>
  \<^verbatim>\<open>a / b\<close> on integers and \<^verbatim>\<open>x ** n\<close> for a float and an integer; both
  raise on a division by zero. Floats are the real numbers they denote.
\<close>

definition py_truediv :: "int \<Rightarrow> int \<Rightarrow> py_error + real" where
  "py_truediv a b = (if b = 0 then Inl ZeroDivisionError else Inr (of_int a / of_int b))"

definition py_pow :: "real \<Rightarrow> int \<Rightarrow> py_error + real" where
  "py_pow x n =
     (if 0 \<le> n then Inr (x ^ nat n)
      else if x = 0 then Inl ZeroDivisionError
      else Inr (inverse (x ^ nat (- n))))"

text \<open>
  The environment is an external collaborator with a state of its own:
  \<^verbatim>\<open>env.step(action)\<close> returns the next observation, the reward and the done
  flag (the info dictionary is dropped by the callers), \<^verbatim>\<open>env.reset()\<close> an
  observation, \<^verbatim>\<open>env.action_space.sample()\<close> a random action drawn with the
  generator the space owns, and \<^verbatim>\<open>env._max_episode_steps\<close> is the time limit.
\<close>

record ('e, 'o, 'a) Env =
  e_state :: 'e
  e_step :: "'e \<Rightarrow> 'a \<Rightarrow> ('o \<times> real \<times> bool) \<times> 'e"
  e_reset :: "'e \<Rightarrow> 'o \<times> 'e"
  e_action_space_sample :: "'e \<Rightarrow> 'a \<times> 'e"
  e_max_episode_steps :: int

text \<open>
  \<^verbatim>\<open>Algorithm.__init__\<close>: the counters and the configuration. The key
  sequence \<^verbatim>\<open>PRNGSequence(seed)\<close> is the field \<open>rng\<close>; seeding numpy and the
  fake inputs for the JIT compiler are not modelled.
\<close>

record 'k Algorithm =
  env_step :: int
  learning_step :: int
  num_steps :: int
  state_space :: space
  action_space :: space
  gamma :: real
  rng :: 'k

record ('k, 'b) OnPolicyActorCritic = "'k Algorithm" +
  on_buffer :: 'b
  on_discount :: real
  on_buffer_size :: int
  on_batch_size :: int

record ('k, 'b) OffPolicyAlgorithm = "'k Algorithm" +
  off_buffer :: 'b
  off_discount :: real
  off_use_per :: bool
  off_batch_size :: int
  off_start_steps :: int
  off_update_interval :: int
  off_update_interval_target :: "int option"
  off_update_target_tau :: "real option"

text \<open>
  \<^verbatim>\<open>OnPolicyActorCritic.__init__\<close>. The buffer classes that \<^verbatim>\<open>base.py\<close>
  imports from \<^verbatim>\<open>rljax.buffer\<close> are not among the sources: their
  constructors and their \<^verbatim>\<open>append\<close> methods are parameters.
\<close>

definition OnPolicyActorCritic_init ::
  "(int \<Rightarrow> space \<Rightarrow> space \<Rightarrow> 'b) \<Rightarrow> int \<Rightarrow> space \<Rightarrow> space \<Rightarrow> 'k \<Rightarrow> real \<Rightarrow> int \<Rightarrow> int
     \<Rightarrow> ('k, 'b) OnPolicyActorCritic" where
  "OnPolicyActorCritic_init RolloutBuffer n_steps st_space act_space seed gam buf_size bat_size =
     \<lparr>env_step = 0, learning_step = 0, num_steps = n_steps, state_space = st_space,
      action_space = act_space, gamma = gam, rng = seed,
      on_buffer = RolloutBuffer buf_size st_space act_space,
      on_discount = gam, on_buffer_size = buf_size, on_batch_size = bat_size\<rparr>"

text \<open>\<^verbatim>\<open>OnPolicyActorCritic.is_update\<close>.\<close>

definition OnPolicyActorCritic_is_update ::
  "('k, 'b) OnPolicyActorCritic \<Rightarrow> py_error + bool" where
  "OnPolicyActorCritic_is_update algo =
     (if on_buffer_size algo = 0 then Inl ZeroDivisionError
      else Inr (env_step algo mod on_buffer_size algo = 0))"

text \<open>
  \<^verbatim>\<open>OnPolicyActorCritic.step\<close>. \<open>explore\<close> is the policy: from the key
  sequence and the state it gives the action, its log-probability and the
  advanced key sequence. The result is the returned pair, the algorithm and
  the environment after the call.
\<close>

definition OnPolicyActorCritic_step ::
  "('k \<Rightarrow> 'o \<Rightarrow> ('a \<times> 'l) \<times> 'k) \<Rightarrow> ('b \<Rightarrow> 'o \<Rightarrow> 'a \<Rightarrow> real \<Rightarrow> bool \<Rightarrow> 'l \<Rightarrow> 'o \<Rightarrow> 'b)
     \<Rightarrow> ('k, 'b) OnPolicyActorCritic \<Rightarrow> ('e, 'o, 'a) Env \<Rightarrow> 'o \<Rightarrow> int
     \<Rightarrow> ('o \<times> int) \<times> ('k, 'b) OnPolicyActorCritic \<times> ('e, 'o, 'a) Env" where
  "OnPolicyActorCritic_step explore append_fn algo env state t =
     (let t1 = t + 1;
          algo1 = algo\<lparr>env_step := env_step algo + 1\<rparr>;
          ((action, log_pi), k1) = explore (rng algo1) state;
          algo2 = algo1\<lparr>rng := k1\<rparr>;
          ((next_state, reward, done), e1) = e_step env (e_state env) action;
          env1 = env\<lparr>e_state := e1\<rparr>;
          mask = (if t1 = e_max_episode_steps env1 then False else done);
          algo3 = algo2\<lparr>on_buffer :=
                    append_fn (on_buffer algo2) state action reward mask log_pi next_state\<rparr>
      in if done
         then (let (s0, e2) = e_reset env1 (e_state env1)
               in ((s0, 0), algo3, env1\<lparr>e_state := e2\<rparr>))
         else ((next_state, t1), algo3, env1))"

text \<open>
  \<^verbatim>\<open>OffPolicyAlgorithm.__init__\<close>. The assertion comes first; a hard-copy
  interval, when truthy, wins over \<open>tau\<close> and binds the coefficient 1 into the
  target update, and is otherwise never stored.
\<close>

definition OffPolicyAlgorithm_init ::
  "(int \<Rightarrow> space \<Rightarrow> space \<Rightarrow> real \<Rightarrow> int \<Rightarrow> real \<Rightarrow> 'b) \<Rightarrow> (int \<Rightarrow> space \<Rightarrow> space \<Rightarrow> real \<Rightarrow> int \<Rightarrow> 'b)
     \<Rightarrow> int \<Rightarrow> space \<Rightarrow> space \<Rightarrow> 'k \<Rightarrow> real \<Rightarrow> int \<Rightarrow> int \<Rightarrow> bool \<Rightarrow> int \<Rightarrow> int \<Rightarrow> int
     \<Rightarrow> int option \<Rightarrow> real option \<Rightarrow> py_error + ('k, 'b) OffPolicyAlgorithm" where
  "OffPolicyAlgorithm_init PrioritizedReplayBuffer ReplayBuffer n_steps st_space act_space seed
       gam nstep buf_size use_per bat_size start_steps update_interval
       update_interval_target tau =
     (if \<not> (truthy update_interval_target \<or> truthy tau) then Inl AssertionError
      else
        case (if use_per
              then (case py_truediv (n_steps - start_steps) update_interval of
                      Inl e \<Rightarrow> Inl e
                    | Inr beta_steps \<Rightarrow>
                        Inr (PrioritizedReplayBuffer buf_size st_space act_space gam nstep
                               beta_steps))
              else Inr (ReplayBuffer buf_size st_space act_space gam nstep)) of
          Inl e \<Rightarrow> Inl e
        | Inr buf \<Rightarrow>
           (case py_pow gam nstep of
              Inl e \<Rightarrow> Inl e
            | Inr disc \<Rightarrow>
                Inr \<lparr>env_step = 0, learning_step = 0, num_steps = n_steps,
                     state_space = st_space, action_space = act_space, gamma = gam,
                     rng = seed, off_buffer = buf, off_discount = disc,
                     off_use_per = use_per, off_batch_size = bat_size,
                     off_start_steps = start_steps, off_update_interval = update_interval,
                     off_update_interval_target =
                       (if truthy update_interval_target then update_interval_target
                        else None),
                     off_update_target_tau =
                       (if truthy update_interval_target then Some 1 else tau)\<rparr>))"

text \<open>\<^verbatim>\<open>OffPolicyAlgorithm.is_update\<close>.\<close>

definition OffPolicyAlgorithm_is_update ::
  "('k, 'b) OffPolicyAlgorithm \<Rightarrow> py_error + bool" where
  "OffPolicyAlgorithm_is_update algo =
     (if off_update_interval algo = 0 then Inl ZeroDivisionError
      else Inr (env_step algo mod off_update_interval algo = 0 \<and>
                off_start_steps algo \<le> env_step algo))"

text \<open>
  \<^verbatim>\<open>OffPolicyAlgorithm.step\<close>. During the first \<open>start_steps\<close> calls the
  action comes from the action space of the environment and the policy
  \<open>explore\<close> is not called.
\<close>

definition OffPolicyAlgorithm_step ::
  "('k \<Rightarrow> 'o \<Rightarrow> 'a \<times> 'k) \<Rightarrow> ('b \<Rightarrow> 'o \<Rightarrow> 'a \<Rightarrow> real \<Rightarrow> bool \<Rightarrow> 'o \<Rightarrow> bool \<Rightarrow> 'b)
     \<Rightarrow> ('k, 'b) OffPolicyAlgorithm \<Rightarrow> ('e, 'o, 'a) Env \<Rightarrow> 'o \<Rightarrow> int
     \<Rightarrow> ('o \<times> int) \<times> ('k, 'b) OffPolicyAlgorithm \<times> ('e, 'o, 'a) Env" where
  "OffPolicyAlgorithm_step explore append_fn algo env state t =
     (let t1 = t + 1;
          algo1 = algo\<lparr>env_step := env_step algo + 1\<rparr>;
          (action, algo2, env1) =
            (if env_step algo1 \<le> off_start_steps algo1
             then (let (a, e1) = e_action_space_sample env (e_state env)
                   in (a, algo1, env\<lparr>e_state := e1\<rparr>))
             else (let (a, k1) = explore (rng algo1) state
                   in (a, algo1\<lparr>rng := k1\<rparr>, env)));
          ((next_state, reward, done), e2) = e_step env1 (e_state env1) action;
          env2 = env1\<lparr>e_state := e2\<rparr>;
          mask = (if t1 = e_max_episode_steps env2 then False else done);
          algo3 = algo2\<lparr>off_buffer :=
                    append_fn (off_buffer algo2) state action reward mask next_state done\<rparr>
      in if done
         then (let (s0, e3) = e_reset env2 (e_state env2)
               in ((s0, 0), algo3, env2\<lparr>e_state := e3\<rparr>))
         else ((next_state, t1), algo3, env2))"

section \<open>Properties of the replay buffer\<close>

lemma append_ok:
  assumes "rb_allocated b" "rb_bounds b" "rb_action b = Some arr"
  shows "ReplayBuffer_append b s a r d s' =
     Inr (b\<lparr>rb_state := (rb_state b)\<lparr>nd_rows := (nd_rows (rb_state b))[nat (rb_p b) := Some s]\<rparr>,
            rb_action := Some (arr\<lparr>nd_rows := (nd_rows arr)[nat (rb_p b) := Some a]\<rparr>),
            rb_reward := (rb_reward b)\<lparr>nd_rows := (nd_rows (rb_reward b))[nat (rb_p b) := Some [float32_cast (py_float r)]]\<rparr>,
            rb_done := (rb_done b)\<lparr>nd_rows := (nd_rows (rb_done b))[nat (rb_p b) := Some [float32_cast (py_float d)]]\<rparr>,
            rb_next_state := (rb_next_state b)\<lparr>nd_rows := (nd_rows (rb_next_state b))[nat (rb_p b) := Some s']\<rparr>,
            rb_p := (rb_p b + 1) mod rb_buffer_size b,
            rb_n := min (rb_n b + 1) (rb_buffer_size b)\<rparr>)"
  using assms
  by (simp add: ReplayBuffer_append_def setitem_def rb_allocated_def rb_bounds_def Let_def)

lemma row_update:
  assumes "0 \<le> p" "p < int (length (nd_rows a))"
  shows "row (a\<lparr>nd_rows := (nd_rows a)[nat p := Some v]\<rparr>) i = (if i = p then Some v else row a i)"
proof -
  have "nat i = nat p \<longleftrightarrow> i = p" if "0 \<le> i" for i
    using that assms by auto
  then show ?thesis
    using assms by (auto simp: row_def nth_list_update)
qed

lemma append_written:
  assumes "rb_allocated b" "rb_bounds b"
  shows "\<exists>b'. ReplayBuffer_append b s a r d s' = Inr b' \<and> rb_allocated b' \<and>
           rb_buffer_size b' = rb_buffer_size b \<and>
           rb_p b' = (rb_p b + 1) mod rb_buffer_size b \<and>
           rb_n b' = min (rb_n b + 1) (rb_buffer_size b) \<and>
           slot b' (rb_p b) = Some (s, a, [float32_cast (py_float r)], [float32_cast (py_float d)], s') \<and>
           (\<forall>i. i \<noteq> rb_p b \<longrightarrow> slot b' i = slot b i)"
proof -
  from assms(1) obtain arr where arr: "rb_action b = Some arr"
    by (auto simp: rb_allocated_def split: option.splits)
  have len: "rb_p b < int (length (nd_rows (rb_state b)))"
    "rb_p b < int (length (nd_rows arr))"
    "rb_p b < int (length (nd_rows (rb_reward b)))"
    "rb_p b < int (length (nd_rows (rb_done b)))"
    "rb_p b < int (length (nd_rows (rb_next_state b)))"
    and p0: "0 \<le> rb_p b"
    using assms arr by (auto simp: rb_allocated_def rb_bounds_def)
  note rows = row_update [OF p0 len(1)] row_update [OF p0 len(2)] row_update [OF p0 len(3)]
    row_update [OF p0 len(4)] row_update [OF p0 len(5)]
  have al: "rb_allocated (b\<lparr>rb_state := st, rb_action := Some ac, rb_reward := rw,
      rb_done := dn, rb_next_state := ns, rb_p := p', rb_n := n'\<rparr>)"
    if "length (nd_rows st) = length (nd_rows (rb_state b))"
       "length (nd_rows ac) = length (nd_rows arr)"
       "length (nd_rows rw) = length (nd_rows (rb_reward b))"
       "length (nd_rows dn) = length (nd_rows (rb_done b))"
       "length (nd_rows ns) = length (nd_rows (rb_next_state b))"
    for st ac rw dn ns p' n'
    using assms(1) arr that by (simp add: rb_allocated_def)
  show ?thesis
    unfolding append_ok [OF assms arr]
    by (simp add: al slot_def rows arr)
qed

lemma mod_distinct:
  fixes j k c :: int
  assumes "j < k" "k < j + c"
  shows "j mod c \<noteq> k mod c"
proof
  assume "j mod c = k mod c"
  then have "c dvd (k - j)" by (metis mod_eq_dvd_iff)
  then have "c \<le> k - j" using assms by (intro zdvd_imp_le) auto
  with assms show False by simp
qed

lemma init_holds:
  assumes "1 \<le> C" "ReplayBuffer_init C ss asp = Inr b" "rb_action b \<noteq> None"
  shows "rb_holds b []"
  using assms
  by (auto simp: ReplayBuffer_init_def np_empty_def rb_holds_def rb_allocated_def
           split: space.splits if_splits)

lemma holds_bounds: "rb_holds b ts \<Longrightarrow> rb_bounds b"
  by (auto simp: rb_holds_def rb_bounds_def)

lemma append_holds:
  assumes "rb_holds b ts"
  shows "\<exists>b'. ReplayBuffer_append b (tr_state t) (tr_action t) (tr_reward t) (tr_done t)
                 (tr_next_state t) = Inr b' \<and> rb_holds b' (ts @ [t])"
proof -
  let ?C = "rb_buffer_size b" and ?k = "length ts"
  from assms have al: "rb_allocated b" and C: "1 \<le> ?C"
    and p: "rb_p b = int ?k mod ?C" and n: "rb_n b = min (int ?k) ?C"
    and sl: "\<And>j. j < ?k \<Longrightarrow> int ?k \<le> int j + ?C \<Longrightarrow>
               slot b (int j mod ?C) = Some (stored (ts ! j))"
    by (auto simp: rb_holds_def)
  from append_written [OF al holds_bounds [OF assms]]
  obtain b' where ap: "ReplayBuffer_append b (tr_state t) (tr_action t) (tr_reward t)
        (tr_done t) (tr_next_state t) = Inr b'"
    and al': "rb_allocated b'" and C': "rb_buffer_size b' = ?C"
    and p': "rb_p b' = (rb_p b + 1) mod ?C" and n': "rb_n b' = min (rb_n b + 1) ?C"
    and w: "slot b' (rb_p b) = Some (stored t)"
    and o: "\<And>i. i \<noteq> rb_p b \<Longrightarrow> slot b' i = slot b i"
    unfolding stored_def by blast
  have p2: "rb_p b' = int (length (ts @ [t])) mod ?C"
    using p' p by (simp add: mod_simps add.commute)
  have n2: "rb_n b' = min (int (length (ts @ [t]))) ?C"
    using n' n by auto
  have s2: "slot b' (int j mod ?C) = Some (stored ((ts @ [t]) ! j))"
    if j: "j < length (ts @ [t])" and r: "int (length (ts @ [t])) \<le> int j + ?C" for j
  proof (cases "j = ?k")
    case True
    then show ?thesis using w p by simp
  next
    case False
    with j have jk: "j < ?k" by simp
    have "int j mod ?C \<noteq> int ?k mod ?C"
      using jk r by (intro mod_distinct) auto
    then have "slot b' (int j mod ?C) = slot b (int j mod ?C)"
      using o p by simp
    also have "\<dots> = Some (stored (ts ! j))"
      using jk r by (intro sl) auto
    finally show ?thesis using jk by (simp add: nth_append)
  qed
  have "rb_holds b' (ts @ [t])"
    unfolding rb_holds_def C' using al' C p2 n2 s2 by blast
  with ap show ?thesis by blast
qed

lemma append_all_holds:
  "rb_holds b hist \<Longrightarrow> \<exists>b'. append_all b ts = Inr b' \<and> rb_holds b' (hist @ ts)"
proof (induction ts arbitrary: b hist)
  case Nil
  then show ?case by simp
next
  case (Cons t ts)
  from append_holds [OF Cons.prems, of t] obtain b1 where
    a: "ReplayBuffer_append b (tr_state t) (tr_action t) (tr_reward t) (tr_done t)
          (tr_next_state t) = Inr b1" and h: "rb_holds b1 (hist @ [t])" by blast
  from Cons.IH [OF h] show ?case using a by simp
qed

lemma recent_step:
  fixes C i :: int and k :: nat
  assumes "1 \<le> C" "0 \<le> i" "i < C" "i < int k"
  shows "\<exists>j<k. int k \<le> int j + C \<and> int j mod C = i"
proof -
  define d where "d = (int k - 1 - i) mod C"
  define j where "j = int k - 1 - d"
  have d: "0 \<le> d" "d < C" using assms by (simp_all add: d_def)
  have dle: "d \<le> int k - 1 - i"
    unfolding d_def using assms by (intro zmod_le_nonneg_dividend) auto
  have j0: "0 \<le> j" using dle assms by (simp add: j_def)
  have "j mod C = (int k - 1 - (int k - 1 - i)) mod C"
    unfolding j_def d_def by (simp add: mod_simps)
  then have jm: "j mod C = i" using assms by simp
  have "nat j < k" "int k \<le> int (nat j) + C" "int (nat j) mod C = i"
    using j0 d jm by (auto simp: j_def)
  then show ?thesis by blast
qed

lemma holds_slot:
  assumes "rb_holds b ts" "0 \<le> i" "i < rb_n b"
  shows "\<exists>j<length ts. int (length ts) \<le> int j + rb_buffer_size b \<and>
           int j mod rb_buffer_size b = i \<and> slot b i = Some (stored (ts ! j))"
proof -
  from assms have C: "1 \<le> rb_buffer_size b" "i < rb_buffer_size b" "i < int (length ts)"
    by (auto simp: rb_holds_def)
  from recent_step [OF C(1) assms(2) C(2,3)] obtain j where
    j: "j < length ts" "int (length ts) \<le> int j + rb_buffer_size b"
       "int j mod rb_buffer_size b = i" by blast
  with assms(1) have "slot b i = Some (stored (ts ! j))"
    unfolding rb_holds_def by metis
  with j show ?thesis by blast
qed

lemma init_size: "ReplayBuffer_init C ss asp = Inr b \<Longrightarrow> rb_buffer_size b = C \<and> rb_n b = 0 \<and> rb_p b = 0"
  by (auto simp: ReplayBuffer_init_def np_empty_def split: space.splits if_splits)

lemma init_supported:
  "ReplayBuffer_init C ss asp = Inr b \<Longrightarrow> asp = Box shp \<or> asp = Discrete m \<Longrightarrow> rb_action b \<noteq> None"
  by (auto simp: ReplayBuffer_init_def np_empty_def split: space.splits if_splits)

lemma append_all_size:
  "rb_holds b hist \<Longrightarrow> append_all b ts = Inr b' \<Longrightarrow> rb_buffer_size b' = rb_buffer_size b"
proof (induction ts arbitrary: b hist)
  case Nil
  then show ?case by simp
next
  case (Cons t ts)
  from append_written [OF _ holds_bounds [OF Cons.prems(1)]] Cons.prems(1)
  obtain b1 where a: "ReplayBuffer_append b (tr_state t) (tr_action t) (tr_reward t)
      (tr_done t) (tr_next_state t) = Inr b1" and s: "rb_buffer_size b1 = rb_buffer_size b"
    unfolding rb_holds_def by blast
  from append_holds [OF Cons.prems(1), of t] a have h: "rb_holds b1 (hist @ [t])" by simp
  from Cons.IH [OF h] Cons.prems(2) a s show ?case by simp
qed

lemma setitem_header:
  "setitem a i v = Inr a' \<Longrightarrow> nd_shape a' = nd_shape a \<and> nd_dtype a' = nd_dtype a \<and> length (nd_rows a') = length (nd_rows a)"
  by (auto simp: setitem_def Let_def split: if_splits)

lemma append_counters:
  "(case ReplayBuffer_append b s a r d s' of
      Inr b' \<Rightarrow> rb_buffer_size b' = rb_buffer_size b \<and> rb_buffer_size b \<noteq> 0 \<and>
                rb_p b' = (rb_p b + 1) mod rb_buffer_size b \<and>
                rb_n b' = min (rb_n b + 1) (rb_buffer_size b)
    | Inl (e, b') \<Rightarrow> rb_buffer_size b' = rb_buffer_size b \<and> rb_p b' = rb_p b \<and> rb_n b' = rb_n b)"
  by (simp add: ReplayBuffer_append_def Let_def split: sum.split option.split)

lemma append_bounds:
  assumes "rb_bounds b"
  shows "(case ReplayBuffer_append b s a r d s' of
      Inr b' \<Rightarrow> rb_bounds b' \<and> rb_buffer_size b' = rb_buffer_size b
    | Inl (e, b') \<Rightarrow> rb_bounds b' \<and> rb_buffer_size b' = rb_buffer_size b)"
  using append_counters [of b s a r d s'] assms
  by (auto simp: rb_bounds_def split: sum.splits)

lemma holds_filling:
  assumes "rb_holds b ts" "rb_n b < rb_buffer_size b"
  shows "rb_n b = int (length ts) \<and> rb_p b = rb_n b \<and>
         (\<forall>i. 0 \<le> i \<and> i < rb_n b \<longrightarrow> slot b i = Some (stored (ts ! nat i)))"
proof -
  let ?C = "rb_buffer_size b"
  from assms have n: "rb_n b = int (length ts)" and k: "int (length ts) < ?C"
    and p: "rb_p b = int (length ts) mod ?C"
    by (auto simp: rb_holds_def)
  have "slot b i = Some (stored (ts ! nat i))" if "0 \<le> i" "i < rb_n b" for i
  proof -
    have "nat i < length ts" "int (length ts) \<le> int (nat i) + ?C"
      using that n k by auto
    with assms(1) have "slot b (int (nat i) mod ?C) = Some (stored (ts ! nat i))"
      unfolding rb_holds_def by blast
    moreover have "int (nat i) mod ?C = i" using that n k by simp
    ultimately show ?thesis by simp
  qed
  moreover have "rb_p b = rb_n b" using p n k by simp
  ultimately show ?thesis using n by blast
qed

lemma holds_full:
  assumes "rb_holds b ts" "rb_n b = rb_buffer_size b"
  shows "slot b (rb_p b) = Some (stored (ts ! (length ts - nat (rb_buffer_size b)))) \<and>
         (\<forall>i. 0 \<le> i \<and> i < rb_buffer_size b \<longrightarrow>
            (\<exists>j<length ts. length ts - nat (rb_buffer_size b) \<le> j \<and>
               slot b i = Some (stored (ts ! j))))"
proof -
  let ?C = "rb_buffer_size b" and ?k = "length ts"
  from assms have C: "1 \<le> ?C" and k: "?C \<le> int ?k"
    and p: "rb_p b = int ?k mod ?C"
    by (auto simp: rb_holds_def)
  let ?j = "?k - nat ?C"
  have j: "?j < ?k" "int ?k \<le> int ?j + ?C" using C k by auto
  with assms(1) have "slot b (int ?j mod ?C) = Some (stored (ts ! ?j))"
    unfolding rb_holds_def by blast
  moreover have "int ?j = int ?k - ?C" using C k by auto
  then have "int ?j mod ?C = rb_p b" using p by simp
  ultimately have old: "slot b (rb_p b) = Some (stored (ts ! ?j))" by simp
  have "\<exists>j<?k. ?k - nat ?C \<le> j \<and> slot b i = Some (stored (ts ! j))"
    if "0 \<le> i" "i < ?C" for i
  proof -
    from holds_slot [OF assms(1) that(1)] that(2) assms(2) obtain j where
      "j < ?k" "int ?k \<le> int j + ?C" "slot b i = Some (stored (ts ! j))" by auto
    then show ?thesis by (intro exI [of _ j]) auto
  qed
  with old show ?thesis by blast
qed

lemma slot_fields:
  assumes "slot b i = Some (s, a, r, d, s')"
  shows "\<exists>arr. rb_action b = Some arr \<and> row (rb_state b) i = Some s \<and> row arr i = Some a \<and>
           row (rb_reward b) i = Some r \<and> row (rb_done b) i = Some d \<and>
           row (rb_next_state b) i = Some s'"
proof -
  from assms obtain arr where arr: "rb_action b = Some arr"
    by (auto simp: slot_def split: option.splits)
  with assms have "all_written (row (rb_state b) i) (row arr i) (row (rb_reward b) i)
            (row (rb_done b) i) (row (rb_next_state b) i) = Some (s, a, r, d, s')"
    by (simp add: slot_def)
  then have "row (rb_state b) i = Some s \<and> row arr i = Some a \<and>
           row (rb_reward b) i = Some r \<and> row (rb_done b) i = Some d \<and>
           row (rb_next_state b) i = Some s'"
    by (rule all_written.elims) auto
  with arr show ?thesis by blast
qed

lemma randint_draws:
  assumes "low < high" "0 < sz"
  shows "np_random_randint low high sz g =
           Inr (map (\<lambda>i. low + int (g i) mod (high - low)) [0..<nat sz], \<lambda>i. g (i + nat sz))"
  using assms by (simp add: np_random_randint_def)

lemma randint_range:
  assumes "low < high" "0 < sz" "np_random_randint low high sz g = Inr (idxes, g')"
  shows "length idxes = nat sz \<and> (\<forall>k<nat sz. low \<le> idxes ! k \<and> idxes ! k < high)"
proof -
  from assms have eq: "idxes = map (\<lambda>i. low + int (g i) mod (high - low)) [0..<nat sz]"
    by (simp add: randint_draws)
  have "0 \<le> int (g k) mod (high - low) \<and> int (g k) mod (high - low) < high - low" for k
    using assms(1) by simp
  then have "low \<le> low + int (g k) mod (high - low) \<and> low + int (g k) mod (high - low) < high" for k
    by (metis add.commute add_le_cancel_left add.right_neutral less_diff_eq)
  then show ?thesis unfolding eq by simp
qed

lemma randint_any:
  assumes "0 < n" "0 < sz" "length want = nat sz" "\<forall>i\<in>set want. 0 \<le> i \<and> i < n"
  shows "np_random_randint 0 n sz (\<lambda>i. nat (want ! i)) = Inr (want, \<lambda>i. nat (want ! (i + nat sz)))"
proof -
  have "map (\<lambda>i. 0 + int (nat (want ! i)) mod (n - 0)) [0..<nat sz] = want"
    using assms(3,4) by (intro nth_equalityI) auto
  then show ?thesis
    using randint_draws [OF assms(1,2), of "\<lambda>i. nat (want ! i)"] by simp
qed

lemma getitem_rows:
  assumes "\<forall>k<length idxes. 0 \<le> idxes ! k \<and> idxes ! k < int (length (nd_rows a))"
  shows "getitem a idxes =
           Inr \<lparr>nd_shape = length idxes # tl (nd_shape a), nd_dtype = nd_dtype a,
                nd_rows = map (row a) idxes\<rparr>"
proof -
  have in_range: "0 \<le> i \<and> i < int (length (nd_rows a))" if "i \<in> set idxes" for i
    using that assms by (auto simp: in_set_conv_nth)
  then have "(if i < 0 then i + int (length (nd_rows a)) else i) = i" if "i \<in> set idxes" for i
    using that by force
  then have m: "map (\<lambda>i. if i < 0 then i + int (length (nd_rows a)) else i) idxes = idxes"
    by (intro map_idI)
  have r: "map (\<lambda>j. nd_rows a ! nat j) idxes = map (row a) idxes"
    using in_range by (intro map_cong) (auto simp: row_def)
  have "list_all (\<lambda>j. 0 \<le> j \<and> j < int (length (nd_rows a))) idxes"
    using in_range by (simp add: list_all_iff)
  then show ?thesis
    by (simp add: getitem_def Let_def m r)
qed

lemma append_header:
  assumes "ReplayBuffer_append b s a r d s' = Inr b'"
  shows "nd_shape (rb_state b') = nd_shape (rb_state b) \<and>
         nd_shape (rb_reward b') = nd_shape (rb_reward b) \<and>
         nd_shape (rb_done b') = nd_shape (rb_done b) \<and>
         nd_shape (rb_next_state b') = nd_shape (rb_next_state b) \<and>
         map_option nd_shape (rb_action b') = map_option nd_shape (rb_action b) \<and>
         nd_dtype (rb_state b') = nd_dtype (rb_state b) \<and>
         nd_dtype (rb_reward b') = nd_dtype (rb_reward b) \<and>
         nd_dtype (rb_done b') = nd_dtype (rb_done b) \<and>
         nd_dtype (rb_next_state b') = nd_dtype (rb_next_state b) \<and>
         map_option nd_dtype (rb_action b') = map_option nd_dtype (rb_action b)"
  using assms
  by (auto simp: ReplayBuffer_append_def Let_def split: sum.splits option.splits if_splits
           dest!: setitem_header)

lemma append_all_header:
  "append_all b ts = Inr b' \<Longrightarrow>
         nd_shape (rb_state b') = nd_shape (rb_state b) \<and>
         nd_shape (rb_reward b') = nd_shape (rb_reward b) \<and>
         nd_shape (rb_done b') = nd_shape (rb_done b) \<and>
         nd_shape (rb_next_state b') = nd_shape (rb_next_state b) \<and>
         map_option nd_shape (rb_action b') = map_option nd_shape (rb_action b) \<and>
         nd_dtype (rb_state b') = nd_dtype (rb_state b) \<and>
         nd_dtype (rb_reward b') = nd_dtype (rb_reward b) \<and>
         nd_dtype (rb_done b') = nd_dtype (rb_done b) \<and>
         nd_dtype (rb_next_state b') = nd_dtype (rb_next_state b) \<and>
         map_option nd_dtype (rb_action b') = map_option nd_dtype (rb_action b)"
proof (induction ts arbitrary: b)
  case Nil
  then show ?case by simp
next
  case (Cons t ts)
  from Cons.prems obtain b1 where
    a: "ReplayBuffer_append b (tr_state t) (tr_action t) (tr_reward t) (tr_done t)
          (tr_next_state t) = Inr b1" and r: "append_all b1 ts = Inr b'"
    by (auto split: sum.splits)
  from Cons.IH [OF r] append_header [OF a] show ?case by simp
qed

lemma init_header:
  assumes "ReplayBuffer_init C ss asp = Inr b"
  shows "nd_shape (rb_state b) = nat C # space_shape ss \<and>
         nd_shape (rb_reward b) = [nat C, 1] \<and>
         nd_shape (rb_done b) = [nat C, 1] \<and>
         nd_shape (rb_next_state b) = nat C # space_shape ss \<and>
         nd_dtype (rb_state b) = float32 \<and> nd_dtype (rb_reward b) = float32 \<and>
         nd_dtype (rb_done b) = float32 \<and> nd_dtype (rb_next_state b) = float32 \<and>
         (asp = Box shp \<longrightarrow> map_option nd_shape (rb_action b) = Some (nat C # shp) \<and>
            map_option nd_dtype (rb_action b) = Some float32) \<and>
         (asp = Discrete m \<longrightarrow> map_option nd_shape (rb_action b) = Some [nat C, 1] \<and>
            map_option nd_dtype (rb_action b) = Some int64)"
  using assms
  by (auto simp: ReplayBuffer_init_def np_empty_def split: space.splits if_splits)

lemma sample_rows:
  assumes h: "rb_holds b ts" and n: "1 \<le> rb_n b" and bs: "1 \<le> batch_size"
  shows "\<exists>idxes arr g'.
     np_random_randint 0 (rb_n b) batch_size g = Inr (idxes, g') \<and>
     rb_action b = Some arr \<and>
     ReplayBuffer_sample b batch_size g =
       Inr ((\<lparr>nd_shape = nat batch_size # tl (nd_shape (rb_state b)),
               nd_dtype = nd_dtype (rb_state b), nd_rows = map (row (rb_state b)) idxes\<rparr>,
             \<lparr>nd_shape = nat batch_size # tl (nd_shape arr),
               nd_dtype = nd_dtype arr, nd_rows = map (row arr) idxes\<rparr>,
             \<lparr>nd_shape = nat batch_size # tl (nd_shape (rb_reward b)),
               nd_dtype = nd_dtype (rb_reward b), nd_rows = map (row (rb_reward b)) idxes\<rparr>,
             \<lparr>nd_shape = nat batch_size # tl (nd_shape (rb_done b)),
               nd_dtype = nd_dtype (rb_done b), nd_rows = map (row (rb_done b)) idxes\<rparr>,
             \<lparr>nd_shape = nat batch_size # tl (nd_shape (rb_next_state b)),
               nd_dtype = nd_dtype (rb_next_state b),
               nd_rows = map (row (rb_next_state b)) idxes\<rparr>), g') \<and>
     length idxes = nat batch_size \<and>
     (\<forall>k<nat batch_size. 0 \<le> idxes ! k \<and> idxes ! k < rb_n b \<and>
        (\<exists>j<length ts. slot b (idxes ! k) = Some (stored (ts ! j))))"
proof -
  let ?C = "rb_buffer_size b"
  from h obtain arr where arr: "rb_action b = Some arr"
    and len: "int (length (nd_rows (rb_state b))) = ?C"
      "int (length (nd_rows arr)) = ?C"
      "int (length (nd_rows (rb_reward b))) = ?C"
      "int (length (nd_rows (rb_done b))) = ?C"
      "int (length (nd_rows (rb_next_state b))) = ?C"
    by (auto simp: rb_holds_def rb_allocated_def split: option.splits)
  have nC: "rb_n b \<le> ?C" using h by (simp add: rb_holds_def)
  have n0: "0 < rb_n b" and b0: "0 < batch_size" using n bs by simp_all
  obtain idxes g' where
    r: "np_random_randint 0 (rb_n b) batch_size g = Inr (idxes, g')"
    using randint_draws [OF n0 b0] by blast
  from randint_range [OF n0 b0 r] have
    l: "length idxes = nat batch_size"
    and rg: "\<And>k. k < nat batch_size \<Longrightarrow> 0 \<le> idxes ! k \<and> idxes ! k < rb_n b"
    by blast+
  have inC: "\<forall>k<length idxes. 0 \<le> idxes ! k \<and> idxes ! k < ?C"
    using rg l nC by fastforce
  note g = getitem_rows [of idxes "rb_state b"] getitem_rows [of idxes arr]
    getitem_rows [of idxes "rb_reward b"] getitem_rows [of idxes "rb_done b"]
    getitem_rows [of idxes "rb_next_state b"]
  have s: "ReplayBuffer_sample b batch_size g =
       Inr ((\<lparr>nd_shape = nat batch_size # tl (nd_shape (rb_state b)),
               nd_dtype = nd_dtype (rb_state b), nd_rows = map (row (rb_state b)) idxes\<rparr>,
             \<lparr>nd_shape = nat batch_size # tl (nd_shape arr),
               nd_dtype = nd_dtype arr, nd_rows = map (row arr) idxes\<rparr>,
             \<lparr>nd_shape = nat batch_size # tl (nd_shape (rb_reward b)),
               nd_dtype = nd_dtype (rb_reward b), nd_rows = map (row (rb_reward b)) idxes\<rparr>,
             \<lparr>nd_shape = nat batch_size # tl (nd_shape (rb_done b)),
               nd_dtype = nd_dtype (rb_done b), nd_rows = map (row (rb_done b)) idxes\<rparr>,
             \<lparr>nd_shape = nat batch_size # tl (nd_shape (rb_next_state b)),
               nd_dtype = nd_dtype (rb_next_state b),
               nd_rows = map (row (rb_next_state b)) idxes\<rparr>), g')"
    using inC by (simp add: ReplayBuffer_sample_def r arr g len l)
  have v: "\<exists>j<length ts. slot b (idxes ! k) = Some (stored (ts ! j))"
    if "k < nat batch_size" for k
    using holds_slot [OF h, of "idxes ! k"] rg [OF that] by blast
  from r arr s l rg v show ?thesis by blast
qed

lemma float32_cast_0: "float32_cast 0 = F32 0"
  by code_simp

lemma float32_cast_1: "float32_cast 1 = F32 1"
  by code_simp

lemma float32_cast_rounds:
  "float32_cast (1 / 10) = F32 (13421773 / 134217728) \<and>
   float32_cast 16777217 = F32 16777216 \<and>
   float32_cast (10 ^ 39) = F32_inf"
  by code_simp

lemma float32_cast_bool:
  "float32_cast (py_float (PyBool f)) = F32 (if f then 1 else 0)"
  by (simp add: float32_cast_0 float32_cast_1)

lemma bool_mask:
  "float32_cast (py_float (PyBool f)) = F32 0 \<or> float32_cast (py_float (PyBool f)) = F32 1"
  by (simp add: float32_cast_0 float32_cast_1)

section \<open>The claims about the replay buffer\<close>

text \<open>
  Claim C1. Take a buffer of capacity \<open>C \<ge> 1\<close> built by the constructor for a
  Box or Discrete action space, after any sequence \<open>ts\<close> of appends. Every
  append succeeds. One more append writes its transition into slot \<open>p\<close>,
  leaves every other slot as it was, moves the cursor to \<open>(p + 1) mod C\<close> and
  sets the fill count to \<open>min (n + 1) C\<close>. Once at least \<open>C\<close> appends were made,
  the fill count is \<open>C\<close> and slot \<open>i\<close> holds the transition of the one append
  among the most recent \<open>C\<close> whose step number, counted from 0, is congruent to
  \<open>i\<close> modulo \<open>C\<close>.
\<close>

theorem C1_append_overwrites_circularly:
  fixes b0 :: "('s, 'a) ReplayBuffer"
  assumes "1 \<le> C" and "ReplayBuffer_init C ss asp = Inr b0"
    and "asp = Box shp \<or> asp = Discrete m"
  shows "\<exists>b. append_all b0 ts = Inr b \<and>
           (\<exists>b'. ReplayBuffer_append b s a r d s' = Inr b' \<and>
                 slot b' (rb_p b) = Some (s, a, [float32_cast (py_float r)], [float32_cast (py_float d)], s') \<and>
                 (\<forall>i. i \<noteq> rb_p b \<longrightarrow> slot b' i = slot b i) \<and>
                 rb_p b' = (rb_p b + 1) mod C \<and>
                 rb_n b' = min (rb_n b + 1) C) \<and>
           (C \<le> int (length ts) \<longrightarrow>
              rb_n b = C \<and>
              (\<forall>i. 0 \<le> i \<and> i < C \<longrightarrow>
                 (\<exists>j<length ts. int (length ts) - C \<le> int j \<and> int j mod C = i \<and>
                    slot b i = Some (stored (ts ! j)))))"
proof -
  have h0: "rb_holds b0 []"
    using init_holds [OF assms(1,2)] init_supported [OF assms(2,3)] by simp
  from append_all_holds [OF h0, of ts] obtain b where
    b: "append_all b0 ts = Inr b" and h: "rb_holds b ts" by auto
  have C: "rb_buffer_size b = C"
    using append_all_size [OF h0 b] init_size [OF assms(2)] by simp
  have al: "rb_allocated b" using h by (simp add: rb_holds_def)
  have one: "\<exists>b'. ReplayBuffer_append b s a r d s' = Inr b' \<and>
                 slot b' (rb_p b) = Some (s, a, [float32_cast (py_float r)], [float32_cast (py_float d)], s') \<and>
                 (\<forall>i. i \<noteq> rb_p b \<longrightarrow> slot b' i = slot b i) \<and>
                 rb_p b' = (rb_p b + 1) mod C \<and>
                 rb_n b' = min (rb_n b + 1) C"
    using append_written [OF al holds_bounds [OF h], of s a r d s'] C by auto
  have full: "rb_n b = C \<and>
              (\<forall>i. 0 \<le> i \<and> i < C \<longrightarrow>
                 (\<exists>j<length ts. int (length ts) - C \<le> int j \<and> int j mod C = i \<and>
                    slot b i = Some (stored (ts ! j))))" if k: "C \<le> int (length ts)"
  proof -
    have n: "rb_n b = C" using h k C by (simp add: rb_holds_def)
    have "\<exists>j<length ts. int (length ts) - C \<le> int j \<and> int j mod C = i \<and>
             slot b i = Some (stored (ts ! j))" if "0 \<le> i" "i < C" for i
    proof -
      from holds_slot [OF h that(1)] that(2) n C obtain j where
        "j < length ts" "int (length ts) \<le> int j + C" "int j mod C = i"
        "slot b i = Some (stored (ts ! j))" by auto
      then show ?thesis by (intro exI [of _ j]) auto
    qed
    with n show ?thesis by blast
  qed
  from b one full show ?thesis by blast
qed

theorem C1_append_overwrites_circularly_witness:
  "\<exists>b0 b. (ReplayBuffer_init 2 (Box [1]) (Discrete 3)
              :: py_error + (nat, nat) ReplayBuffer) = Inr b0 \<and>
     append_all b0
       [\<lparr>tr_state = 10, tr_action = 0, tr_reward = PyFloat 1, tr_done = PyBool False,
          tr_next_state = 11\<rparr>,
        \<lparr>tr_state = 11, tr_action = 1, tr_reward = PyFloat 2, tr_done = PyBool False,
          tr_next_state = 12\<rparr>,
        \<lparr>tr_state = 12, tr_action = 2, tr_reward = PyFloat 3, tr_done = PyBool True,
          tr_next_state = 13\<rparr>] = Inr b \<and>
     rb_n b = 2 \<and>
     (\<exists>j<3. 1 \<le> int j \<and> int j mod 2 = 0 \<and>
        slot b 0 =
          Some (stored
            ([\<lparr>tr_state = 10, tr_action = 0, tr_reward = PyFloat 1, tr_done = PyBool False,
                tr_next_state = 11\<rparr>,
              \<lparr>tr_state = 11, tr_action = 1, tr_reward = PyFloat 2, tr_done = PyBool False,
                tr_next_state = 12\<rparr>,
              \<lparr>tr_state = 12, tr_action = 2, tr_reward = PyFloat 3, tr_done = PyBool True,
                tr_next_state = 13\<rparr>] ! j)))"
proof -
  let ?ts = "[\<lparr>tr_state = 10::nat, tr_action = 0::nat, tr_reward = PyFloat 1,
                tr_done = PyBool False, tr_next_state = 11\<rparr>,
              \<lparr>tr_state = 11, tr_action = 1, tr_reward = PyFloat 2, tr_done = PyBool False,
                tr_next_state = 12\<rparr>,
              \<lparr>tr_state = 12, tr_action = 2, tr_reward = PyFloat 3, tr_done = PyBool True,
                tr_next_state = 13\<rparr>]"
  obtain b0 :: "(nat, nat) ReplayBuffer" where
    i: "ReplayBuffer_init 2 (Box [1]) (Discrete 3) = Inr b0"
    by (simp add: ReplayBuffer_init_def np_empty_def)
  have h1: "(1::int) \<le> 2" and h3: "Discrete 3 = Box [] \<or> Discrete 3 = Discrete 3"
    by simp_all
  have k: "(2::int) \<le> int (length ?ts)" and l: "length ?ts = 3"
    and m: "int (3::nat) - 2 = 1"
    by simp_all
  from C1_append_overwrites_circularly [OF h1 i h3, of ?ts 0 0 "PyFloat 0" "PyBool False" 0]
  obtain b where b: "append_all b0 ?ts = Inr b"
    and imp: "2 \<le> int (length ?ts) \<longrightarrow> rb_n b = 2 \<and>
       (\<forall>i. 0 \<le> i \<and> i < 2 \<longrightarrow>
          (\<exists>j<length ?ts. int (length ?ts) - 2 \<le> int j \<and> int j mod 2 = i \<and>
             slot b i = Some (stored (?ts ! j))))"
    by blast
  from imp k have n: "rb_n b = 2"
    and s: "\<forall>i. 0 \<le> i \<and> i < 2 \<longrightarrow>
          (\<exists>j<length ?ts. int (length ?ts) - 2 \<le> int j \<and> int j mod 2 = i \<and>
             slot b i = Some (stored (?ts ! j)))"
    by (rule conjunct1 [OF mp], rule conjunct2 [OF mp])
  have z: "(0::int) \<le> 0 \<and> (0::int) < 2" by simp
  from s [rule_format, OF z] have
    e: "\<exists>j<3. 1 \<le> int j \<and> int j mod 2 = 0 \<and> slot b 0 = Some (stored (?ts ! j))"
    unfolding l m .
  show ?thesis
    by (rule exI [of _ b0], rule exI [of _ b], intro conjI) (fact i, fact b, fact n, fact e)
qed

text \<open>
  Claim C4. The cursor stays in \<open>[0, C)\<close> and the fill count in \<open>[0, C]\<close>: the
  constructor establishes the bounds for a capacity \<open>C \<ge> 1\<close>, and an append
  keeps them, whether it returns or raises. Sampling assigns no attribute of
  the buffer, so its model returns no buffer and the buffer after a call is the
  buffer before it. For a Box or Discrete action space and any appends \<open>ts\<close>:
  while the fill count \<open>n\<close> is below \<open>C\<close>, it is the number of appends, the
  cursor equals it, and slots \<open>[0, n)\<close> hold the appended transitions in order;
  once \<open>n = C\<close>, every slot holds one of the most recent \<open>C\<close> transitions and the
  slot at the cursor, which the next append overwrites, holds the oldest of
  them.
\<close>

theorem C4_buffer_invariant:
  fixes b0 b :: "('s, 'a) ReplayBuffer"
  shows "(1 \<le> C \<and> ReplayBuffer_init C ss asp = Inr b0 \<longrightarrow>
            rb_bounds b0 \<and> rb_buffer_size b0 = C \<and> rb_n b0 = 0) \<and>
         (rb_bounds b \<longrightarrow>
            (case ReplayBuffer_append b s a r d s' of
               Inr b' \<Rightarrow> rb_bounds b' \<and> rb_buffer_size b' = rb_buffer_size b
             | Inl (e, b') \<Rightarrow> rb_bounds b' \<and> rb_buffer_size b' = rb_buffer_size b)) \<and>
         (1 \<le> C \<and> ReplayBuffer_init C ss asp = Inr b0 \<and>
          (asp = Box shp \<or> asp = Discrete m) \<longrightarrow>
            (\<exists>bk. append_all b0 ts = Inr bk \<and> rb_bounds bk \<and> rb_buffer_size bk = C \<and>
               (rb_n bk < C \<longrightarrow>
                  rb_n bk = int (length ts) \<and> rb_p bk = rb_n bk \<and>
                  (\<forall>i. 0 \<le> i \<and> i < rb_n bk \<longrightarrow>
                     slot bk i = Some (stored (ts ! nat i)))) \<and>
               (rb_n bk = C \<longrightarrow>
                  slot bk (rb_p bk) = Some (stored (ts ! (length ts - nat C))) \<and>
                  (\<forall>i. 0 \<le> i \<and> i < C \<longrightarrow>
                     (\<exists>j<length ts. length ts - nat C \<le> j \<and>
                        slot bk i = Some (stored (ts ! j)))))))"
proof -
  have p1: "rb_bounds b0 \<and> rb_buffer_size b0 = C \<and> rb_n b0 = 0"
    if "1 \<le> C \<and> ReplayBuffer_init C ss asp = Inr b0"
    using that init_size [of C ss asp b0] by (simp add: rb_bounds_def)
  have p2: "case ReplayBuffer_append b s a r d s' of
               Inr b' \<Rightarrow> rb_bounds b' \<and> rb_buffer_size b' = rb_buffer_size b
             | Inl (e, b') \<Rightarrow> rb_bounds b' \<and> rb_buffer_size b' = rb_buffer_size b"
    if "rb_bounds b"
    using that by (rule append_bounds)
  have p3: "\<exists>bk. append_all b0 ts = Inr bk \<and> rb_bounds bk \<and> rb_buffer_size bk = C \<and>
               (rb_n bk < C \<longrightarrow>
                  rb_n bk = int (length ts) \<and> rb_p bk = rb_n bk \<and>
                  (\<forall>i. 0 \<le> i \<and> i < rb_n bk \<longrightarrow>
                     slot bk i = Some (stored (ts ! nat i)))) \<and>
               (rb_n bk = C \<longrightarrow>
                  slot bk (rb_p bk) = Some (stored (ts ! (length ts - nat C))) \<and>
                  (\<forall>i. 0 \<le> i \<and> i < C \<longrightarrow>
                     (\<exists>j<length ts. length ts - nat C \<le> j \<and>
                        slot bk i = Some (stored (ts ! j)))))"
    if a: "1 \<le> C \<and> ReplayBuffer_init C ss asp = Inr b0 \<and>
          (asp = Box shp \<or> asp = Discrete m)"
  proof -
    from a have h0: "rb_holds b0 []"
      using init_holds [of C ss asp b0] init_supported [of C ss asp b0 shp m] by simp
    from append_all_holds [OF h0, of ts] obtain bk where
      bk: "append_all b0 ts = Inr bk" and h: "rb_holds bk ts" by auto
    have C: "rb_buffer_size bk = C"
      using append_all_size [OF h0 bk] init_size [of C ss asp b0] a by simp
    show ?thesis
      using bk holds_bounds [OF h] holds_filling [OF h] holds_full [OF h] C
      by (intro exI [of _ bk]) simp
  qed
  from p1 p2 p3 show ?thesis by blast
qed

theorem C4_buffer_invariant_witness:
  "\<exists>b0 bk. (ReplayBuffer_init 2 (Box [1]) (Discrete 3)
              :: py_error + (nat, nat) ReplayBuffer) = Inr b0 \<and>
     rb_bounds b0 \<and> rb_buffer_size b0 = 2 \<and> rb_n b0 = 0 \<and>
     append_all b0
       [\<lparr>tr_state = 10, tr_action = 0, tr_reward = PyFloat 1, tr_done = PyBool False,
          tr_next_state = 11\<rparr>,
        \<lparr>tr_state = 11, tr_action = 1, tr_reward = PyFloat 2, tr_done = PyBool False,
          tr_next_state = 12\<rparr>,
        \<lparr>tr_state = 12, tr_action = 2, tr_reward = PyFloat 3, tr_done = PyBool True,
          tr_next_state = 13\<rparr>] = Inr bk \<and>
     rb_bounds bk \<and> rb_n bk = 2 \<and>
     slot bk (rb_p bk) = Some (11, 1, [F32 2], [F32 0], 12)"
proof -
  let ?ts = "[\<lparr>tr_state = 10::nat, tr_action = 0::nat, tr_reward = PyFloat 1,
                tr_done = PyBool False, tr_next_state = 11\<rparr>,
              \<lparr>tr_state = 11, tr_action = 1, tr_reward = PyFloat 2, tr_done = PyBool False,
                tr_next_state = 12\<rparr>,
              \<lparr>tr_state = 12, tr_action = 2, tr_reward = PyFloat 3, tr_done = PyBool True,
                tr_next_state = 13\<rparr>]"
  obtain b0 :: "(nat, nat) ReplayBuffer" where
    i: "ReplayBuffer_init 2 (Box [1]) (Discrete 3) = Inr b0"
    by (simp add: ReplayBuffer_init_def np_empty_def)
  note T = C4_buffer_invariant [of 2 "Box [1]" "Discrete 3" b0 b0 0 0 "PyFloat 0"
      "PyBool False" 0 "[]" 3 ?ts]
  have a1: "(1::int) \<le> 2 \<and> ReplayBuffer_init 2 (Box [1]) (Discrete 3) = Inr b0"
    using i by simp
  have a3: "(1::int) \<le> 2 \<and> ReplayBuffer_init 2 (Box [1]) (Discrete 3) = Inr b0 \<and>
      (Discrete 3 = Box [] \<or> Discrete 3 = Discrete 3)"
    using i by simp
  note p1 = mp [OF conjunct1 [OF T] a1]
  note p3 = mp [OF conjunct2 [OF conjunct2 [OF T]] a3]
  from p3 obtain bk where bk: "append_all b0 ?ts = Inr bk" and bd: "rb_bounds bk"
    and sz: "rb_buffer_size bk = 2"
    and f: "rb_n bk < 2 \<longrightarrow> rb_n bk = int (length ?ts)"
    and g: "rb_n bk = 2 \<longrightarrow>
       slot bk (rb_p bk) = Some (stored (?ts ! (length ?ts - nat 2)))"
    by blast
  have n: "rb_n bk = 2"
    using f bd sz by (auto simp: rb_bounds_def)
  with g have "slot bk (rb_p bk) = Some (stored (?ts ! (length ?ts - nat 2)))"
    by blast
  moreover have "length ?ts - nat 2 = 1" by simp
  moreover have "float32_cast 2 = F32 2" by code_simp
  ultimately have o: "slot bk (rb_p bk) = Some (11, 1, [F32 2], [F32 0], 12)"
    by (simp add: stored_def float32_cast_0)
  from p1 have q: "rb_bounds b0" "rb_buffer_size b0 = 2" "rb_n b0 = 0" by blast+
  show ?thesis
    by (rule exI [of _ b0], rule exI [of _ bk], intro conjI)
       (fact i, fact q, fact q, fact q, fact bk, fact bd, fact n, fact o)
qed

text \<open>
  Claim C3. Take a buffer built for a Box or Discrete action space with
  capacity \<open>C \<ge> 1\<close> after the appends \<open>ts\<close>, at least one, and a batch size of
  at least 1. Then the fill count \<open>n\<close> is at least 1 and sampling returns: it
  asks the generator for \<open>batch_size\<close> indices of \<open>[0, n)\<close>, every drawn index
  lies in \<open>[0, n)\<close>, and the result is one tensor per field, of leading
  dimension \<open>batch_size\<close>, whose row \<open>k\<close> is that field of the transition held
  by the slot of the \<open>k\<close>-th index. No order is imposed on the indices and an
  index may repeat: every vector of \<open>batch_size\<close> indices of \<open>[0, n)\<close> is the
  draw of some generator state. That the draws are uniform and independent is
  the contract of numpy's generator, which the model takes as given.
\<close>

theorem C3_sample_gathers:
  fixes b0 b :: "('s, 'a) ReplayBuffer"
  assumes "1 \<le> C" and "ReplayBuffer_init C ss asp = Inr b0"
    and "asp = Box shp \<or> asp = Discrete m"
    and "append_all b0 ts = Inr b" and "ts \<noteq> []" and "1 \<le> batch_size"
  shows "1 \<le> rb_n b \<and>
    (\<exists>idxes st ac rw dn ns g'.
       np_random_randint 0 (rb_n b) batch_size g = Inr (idxes, g') \<and>
       ReplayBuffer_sample b batch_size g = Inr ((st, ac, rw, dn, ns), g') \<and>
       length idxes = nat batch_size \<and>
       nd_shape st = nat batch_size # space_shape ss \<and>
       (asp = Box shp \<longrightarrow> nd_shape ac = nat batch_size # shp) \<and>
       (asp = Discrete m \<longrightarrow> nd_shape ac = [nat batch_size, 1]) \<and>
       nd_shape rw = [nat batch_size, 1] \<and>
       nd_shape dn = [nat batch_size, 1] \<and>
       nd_shape ns = nat batch_size # space_shape ss \<and>
       length (nd_rows st) = nat batch_size \<and> length (nd_rows ac) = nat batch_size \<and>
       length (nd_rows rw) = nat batch_size \<and> length (nd_rows dn) = nat batch_size \<and>
       length (nd_rows ns) = nat batch_size \<and>
       (\<forall>k<nat batch_size.
          0 \<le> idxes ! k \<and> idxes ! k < rb_n b \<and>
          (\<exists>j<length ts.
             slot b (idxes ! k) = Some (stored (ts ! j)) \<and>
             nd_rows st ! k = Some (tr_state (ts ! j)) \<and>
             nd_rows ac ! k = Some (tr_action (ts ! j)) \<and>
             nd_rows rw ! k = Some [float32_cast (py_float (tr_reward (ts ! j)))] \<and>
             nd_rows dn ! k = Some [float32_cast (py_float (tr_done (ts ! j)))] \<and>
             nd_rows ns ! k = Some (tr_next_state (ts ! j))))) \<and>
    (\<forall>want. length want = nat batch_size \<and> (\<forall>i\<in>set want. 0 \<le> i \<and> i < rb_n b) \<longrightarrow>
       (\<exists>g2 g3. np_random_randint 0 (rb_n b) batch_size g2 = Inr (want, g3)))"
proof -
  have h0: "rb_holds b0 []"
    using init_holds [OF assms(1,2)] init_supported [OF assms(2,3)] by simp
  from append_all_holds [OF h0, of ts] assms(4) have h: "rb_holds b ts" by simp
  have C: "rb_buffer_size b = C"
    using append_all_size [OF h0 assms(4)] init_size [OF assms(2)] by simp
  have n: "1 \<le> rb_n b"
    using h assms(1,5) C by (cases ts) (auto simp: rb_holds_def)
  from sample_rows [OF h n assms(6), of g] obtain idxes arr g' where
    r: "np_random_randint 0 (rb_n b) batch_size g = Inr (idxes, g')"
    and arr: "rb_action b = Some arr"
    and s: "ReplayBuffer_sample b batch_size g =
       Inr ((\<lparr>nd_shape = nat batch_size # tl (nd_shape (rb_state b)),
               nd_dtype = nd_dtype (rb_state b), nd_rows = map (row (rb_state b)) idxes\<rparr>,
             \<lparr>nd_shape = nat batch_size # tl (nd_shape arr),
               nd_dtype = nd_dtype arr, nd_rows = map (row arr) idxes\<rparr>,
             \<lparr>nd_shape = nat batch_size # tl (nd_shape (rb_reward b)),
               nd_dtype = nd_dtype (rb_reward b), nd_rows = map (row (rb_reward b)) idxes\<rparr>,
             \<lparr>nd_shape = nat batch_size # tl (nd_shape (rb_done b)),
               nd_dtype = nd_dtype (rb_done b), nd_rows = map (row (rb_done b)) idxes\<rparr>,
             \<lparr>nd_shape = nat batch_size # tl (nd_shape (rb_next_state b)),
               nd_dtype = nd_dtype (rb_next_state b),
               nd_rows = map (row (rb_next_state b)) idxes\<rparr>), g')"
    and l: "length idxes = nat batch_size"
    and v: "\<And>k. k < nat batch_size \<Longrightarrow> 0 \<le> idxes ! k \<and> idxes ! k < rb_n b \<and>
        (\<exists>j<length ts. slot b (idxes ! k) = Some (stored (ts ! j)))"
    by blast
  note hd = append_all_header [OF assms(4)] init_header [OF assms(2), of shp m]
  have sh: "tl (nd_shape (rb_state b)) = space_shape ss"
    "tl (nd_shape (rb_reward b)) = [1]" "tl (nd_shape (rb_done b)) = [1]"
    "tl (nd_shape (rb_next_state b)) = space_shape ss"
    using hd by simp_all
  have sa: "asp = Box shp \<longrightarrow> tl (nd_shape arr) = shp"
    "asp = Discrete m \<longrightarrow> tl (nd_shape arr) = [1]"
    using hd arr by auto
  have rows: "\<exists>j<length ts.
             slot b (idxes ! k) = Some (stored (ts ! j)) \<and>
             map (row (rb_state b)) idxes ! k = Some (tr_state (ts ! j)) \<and>
             map (row arr) idxes ! k = Some (tr_action (ts ! j)) \<and>
             map (row (rb_reward b)) idxes ! k = Some [float32_cast (py_float (tr_reward (ts ! j)))] \<and>
             map (row (rb_done b)) idxes ! k = Some [float32_cast (py_float (tr_done (ts ! j)))] \<and>
             map (row (rb_next_state b)) idxes ! k = Some (tr_next_state (ts ! j))"
    if k: "k < nat batch_size" for k
  proof -
    from v [OF k] obtain j where j: "j < length ts"
      and sl: "slot b (idxes ! k) = Some (stored (ts ! j))" by blast
    from slot_fields [OF sl [unfolded stored_def]] arr have
      "row (rb_state b) (idxes ! k) = Some (tr_state (ts ! j))"
      "row arr (idxes ! k) = Some (tr_action (ts ! j))"
      "row (rb_reward b) (idxes ! k) = Some [float32_cast (py_float (tr_reward (ts ! j)))]"
      "row (rb_done b) (idxes ! k) = Some [float32_cast (py_float (tr_done (ts ! j)))]"
      "row (rb_next_state b) (idxes ! k) = Some (tr_next_state (ts ! j))"
      by auto
    with j sl k l show ?thesis by (intro exI [of _ j]) simp
  qed
  have any: "\<exists>g2 g3. np_random_randint 0 (rb_n b) batch_size g2 = Inr (want, g3)"
    if "length want = nat batch_size \<and> (\<forall>i\<in>set want. 0 \<le> i \<and> i < rb_n b)" for want
    using randint_any [of "rb_n b" batch_size want] that n assms(6) by auto
  have ex: "\<exists>idxes st ac rw dn ns g'.
       np_random_randint 0 (rb_n b) batch_size g = Inr (idxes, g') \<and>
       ReplayBuffer_sample b batch_size g = Inr ((st, ac, rw, dn, ns), g') \<and>
       length idxes = nat batch_size \<and>
       nd_shape st = nat batch_size # space_shape ss \<and>
       (asp = Box shp \<longrightarrow> nd_shape ac = nat batch_size # shp) \<and>
       (asp = Discrete m \<longrightarrow> nd_shape ac = [nat batch_size, 1]) \<and>
       nd_shape rw = [nat batch_size, 1] \<and>
       nd_shape dn = [nat batch_size, 1] \<and>
       nd_shape ns = nat batch_size # space_shape ss \<and>
       length (nd_rows st) = nat batch_size \<and> length (nd_rows ac) = nat batch_size \<and>
       length (nd_rows rw) = nat batch_size \<and> length (nd_rows dn) = nat batch_size \<and>
       length (nd_rows ns) = nat batch_size \<and>
       (\<forall>k<nat batch_size.
          0 \<le> idxes ! k \<and> idxes ! k < rb_n b \<and>
          (\<exists>j<length ts.
             slot b (idxes ! k) = Some (stored (ts ! j)) \<and>
             nd_rows st ! k = Some (tr_state (ts ! j)) \<and>
             nd_rows ac ! k = Some (tr_action (ts ! j)) \<and>
             nd_rows rw ! k = Some [float32_cast (py_float (tr_reward (ts ! j)))] \<and>
             nd_rows dn ! k = Some [float32_cast (py_float (tr_done (ts ! j)))] \<and>
             nd_rows ns ! k = Some (tr_next_state (ts ! j))))"
    apply (rule exI [of _ idxes])
    apply (intro exI conjI)
                  apply (rule r)
                 apply (rule s)
    using l sh sa v rows by simp_all
  from n ex any show ?thesis by blast
qed

theorem C3_sample_gathers_witness:
  "\<exists>b0 b idxes st ac rw dn ns g'.
     (ReplayBuffer_init 2 (Box [1]) (Discrete 3)
        :: py_error + (nat, nat) ReplayBuffer) = Inr b0 \<and>
     append_all b0
       [\<lparr>tr_state = 10, tr_action = 0, tr_reward = PyFloat 1, tr_done = PyBool False,
          tr_next_state = 11\<rparr>,
        \<lparr>tr_state = 11, tr_action = 1, tr_reward = PyFloat 2, tr_done = PyBool False,
          tr_next_state = 12\<rparr>,
        \<lparr>tr_state = 12, tr_action = 2, tr_reward = PyFloat 3, tr_done = PyBool True,
          tr_next_state = 13\<rparr>] = Inr b \<and>
     1 \<le> rb_n b \<and>
     ReplayBuffer_sample b 4 (\<lambda>i. 3 * i) = Inr ((st, ac, rw, dn, ns), g') \<and>
     np_random_randint 0 (rb_n b) 4 (\<lambda>i. 3 * i) = Inr (idxes, g') \<and>
     length idxes = nat 4 \<and>
     nd_shape st = [nat 4, 1] \<and> nd_shape ac = [nat 4, 1] \<and> nd_shape rw = [nat 4, 1] \<and>
     nd_shape dn = [nat 4, 1] \<and> nd_shape ns = [nat 4, 1]"
proof -
  let ?ts = "[\<lparr>tr_state = 10::nat, tr_action = 0::nat, tr_reward = PyFloat 1,
                tr_done = PyBool False, tr_next_state = 11\<rparr>,
              \<lparr>tr_state = 11, tr_action = 1, tr_reward = PyFloat 2, tr_done = PyBool False,
                tr_next_state = 12\<rparr>,
              \<lparr>tr_state = 12, tr_action = 2, tr_reward = PyFloat 3, tr_done = PyBool True,
                tr_next_state = 13\<rparr>]"
  obtain b0 :: "(nat, nat) ReplayBuffer" where
    i: "ReplayBuffer_init 2 (Box [1]) (Discrete 3) = Inr b0"
    by (simp add: ReplayBuffer_init_def np_empty_def)
  have h1: "(1::int) \<le> 2" and h3: "Discrete 3 = Box [] \<or> Discrete 3 = Discrete 3"
    and h5: "?ts \<noteq> []" and h6: "(1::int) \<le> 4"
    by simp_all
  have "rb_holds b0 []"
    using init_holds [OF h1 i] init_supported [OF i h3] by simp
  from append_all_holds [OF this, of ?ts] obtain b where
    b: "append_all b0 ?ts = Inr b" by auto
  from C3_sample_gathers [OF h1 i h3 b h5 h6, of "\<lambda>i. 3 * i"]
  obtain idxes st ac rw dn ns g' where
    n: "1 \<le> rb_n b"
    and r: "np_random_randint 0 (rb_n b) 4 (\<lambda>i. 3 * i) = Inr (idxes, g')"
    and s: "ReplayBuffer_sample b 4 (\<lambda>i. 3 * i) = Inr ((st, ac, rw, dn, ns), g')"
    and l: "length idxes = nat 4"
    and s1: "nd_shape st = nat 4 # space_shape (Box [1])"
    and s2: "Discrete 3 = Discrete 3 \<longrightarrow> nd_shape ac = [nat 4, 1]"
    and s3: "nd_shape rw = [nat 4, 1]" and s4: "nd_shape dn = [nat 4, 1]"
    and s5: "nd_shape ns = nat 4 # space_shape (Box [1])"
    by blast
  from s1 s5 have t1: "nd_shape st = [nat 4, 1]" and t5: "nd_shape ns = [nat 4, 1]"
    by simp_all
  from s2 have t2: "nd_shape ac = [nat 4, 1]" by simp
  show ?thesis
    by (intro exI conjI) (fact i, fact b, fact n, fact s, fact r, fact l, fact t1, fact t2,
      fact s3, fact s4, fact t5)
qed

text \<open>
  Claim C2, as amended. The code has no check for an empty buffer and no
  \<open>EmptyBufferError\<close>: for a buffer whose fill count is 0 and a batch size
  other than 0, sampling fails at the call with the \<open>ValueError\<close> that numpy's
  \<^verbatim>\<open>randint\<close> raises for the empty range \<open>[0, 0)\<close>.
\<close>

theorem C2_sample_empty_raises:
  assumes "rb_n b = 0" and "batch_size \<noteq> 0"
  shows "ReplayBuffer_sample b batch_size g = Inl ValueError"
  using assms by (simp add: ReplayBuffer_sample_def np_random_randint_def)

theorem C2_sample_empty_raises_witness:
  "\<exists>b0. (ReplayBuffer_init 2 (Box [1]) (Discrete 3)
           :: py_error + (nat, nat) ReplayBuffer) = Inr b0 \<and>
     rb_n b0 = 0 \<and> ReplayBuffer_sample b0 32 (\<lambda>i. i) = Inl ValueError"
proof -
  obtain b0 :: "(nat, nat) ReplayBuffer" where
    i: "ReplayBuffer_init 2 (Box [1]) (Discrete 3) = Inr b0"
    by (simp add: ReplayBuffer_init_def np_empty_def)
  have n: "rb_n b0 = 0" using init_size [OF i] by simp
  have "(32::int) \<noteq> 0" by simp
  from C2_sample_empty_raises [OF n this] have
    s: "ReplayBuffer_sample b0 32 (\<lambda>i. i) = Inl ValueError" .
  show ?thesis by (intro exI conjI) (fact i, fact n, fact s)
qed

text \<open>
  Claim C2 as stated fails for the batch size 0: numpy returns the empty index
  array without looking at the range, and sampling the freshly constructed
  buffer returns five empty tensors.
\<close>

theorem C2_counterexample:
  "(ReplayBuffer_init 2 (Box [1]) (Box [1]) :: py_error + (nat, nat) ReplayBuffer) =
     Inr \<lparr>rb_n = 0, rb_p = 0, rb_buffer_size = 2,
          rb_state = \<lparr>nd_shape = [2, 1], nd_dtype = float32, nd_rows = [None, None]\<rparr>,
          rb_reward = \<lparr>nd_shape = [2, 1], nd_dtype = float32, nd_rows = [None, None]\<rparr>,
          rb_done = \<lparr>nd_shape = [2, 1], nd_dtype = float32, nd_rows = [None, None]\<rparr>,
          rb_next_state = \<lparr>nd_shape = [2, 1], nd_dtype = float32, nd_rows = [None, None]\<rparr>,
          rb_action = Some \<lparr>nd_shape = [2, 1], nd_dtype = float32, nd_rows = [None, None]\<rparr>\<rparr> \<and>
   ReplayBuffer_sample
     (\<lparr>rb_n = 0, rb_p = 0, rb_buffer_size = 2,
       rb_state = \<lparr>nd_shape = [2, 1], nd_dtype = float32, nd_rows = [None, None]\<rparr>,
       rb_reward = \<lparr>nd_shape = [2, 1], nd_dtype = float32, nd_rows = [None, None]\<rparr>,
       rb_done = \<lparr>nd_shape = [2, 1], nd_dtype = float32, nd_rows = [None, None]\<rparr>,
       rb_next_state = \<lparr>nd_shape = [2, 1], nd_dtype = float32, nd_rows = [None, None]\<rparr>,
       rb_action = Some \<lparr>nd_shape = [2, 1], nd_dtype = float32, nd_rows = [None, None]\<rparr>\<rparr>
        :: (nat, nat) ReplayBuffer) 0 (\<lambda>i. i) =
     Inr ((\<lparr>nd_shape = [0, 1], nd_dtype = float32, nd_rows = []\<rparr>,
           \<lparr>nd_shape = [0, 1], nd_dtype = float32, nd_rows = []\<rparr>,
           \<lparr>nd_shape = [0, 1], nd_dtype = float32, nd_rows = []\<rparr>,
           \<lparr>nd_shape = [0, 1], nd_dtype = float32, nd_rows = []\<rparr>,
           \<lparr>nd_shape = [0, 1], nd_dtype = float32, nd_rows = []\<rparr>), \<lambda>i. i)"
  by (simp add: ReplayBuffer_init_def np_empty_def ReplayBuffer_sample_def
        np_random_randint_def getitem_def numeral_2_eq_2)

text \<open>
  Claim C8, on the code. For an action space that is neither Box nor Discrete
  the constructor raises nothing and returns a buffer without action storage;
  the first append then writes the state row and raises \<open>AttributeError\<close>. For
  a Box action space the action storage is a float32 array of the action
  shape per slot, for a Discrete one an int64 array of shape \<open>(1,)\<close> per slot.
\<close>

theorem C8_unsupported_action_space_accepted:
  "(ReplayBuffer_init 2 (Box [3]) (MultiDiscrete [2, 2])
      :: py_error + (nat, nat) ReplayBuffer) =
     Inr \<lparr>rb_n = 0, rb_p = 0, rb_buffer_size = 2,
          rb_state = \<lparr>nd_shape = [2, 3], nd_dtype = float32, nd_rows = [None, None]\<rparr>,
          rb_reward = \<lparr>nd_shape = [2, 1], nd_dtype = float32, nd_rows = [None, None]\<rparr>,
          rb_done = \<lparr>nd_shape = [2, 1], nd_dtype = float32, nd_rows = [None, None]\<rparr>,
          rb_next_state = \<lparr>nd_shape = [2, 3], nd_dtype = float32, nd_rows = [None, None]\<rparr>,
          rb_action = None\<rparr> \<and>
   ReplayBuffer_append
     (\<lparr>rb_n = 0, rb_p = 0, rb_buffer_size = 2,
       rb_state = \<lparr>nd_shape = [2, 3], nd_dtype = float32, nd_rows = [None, None]\<rparr>,
       rb_reward = \<lparr>nd_shape = [2, 1], nd_dtype = float32, nd_rows = [None, None]\<rparr>,
       rb_done = \<lparr>nd_shape = [2, 1], nd_dtype = float32, nd_rows = [None, None]\<rparr>,
       rb_next_state = \<lparr>nd_shape = [2, 3], nd_dtype = float32, nd_rows = [None, None]\<rparr>,
       rb_action = None\<rparr> :: (nat, nat) ReplayBuffer)
     10 0 (PyFloat 1) (PyBool False) 11 =
     Inl (AttributeError,
       \<lparr>rb_n = 0, rb_p = 0, rb_buffer_size = 2,
        rb_state = \<lparr>nd_shape = [2, 3], nd_dtype = float32, nd_rows = [Some 10, None]\<rparr>,
        rb_reward = \<lparr>nd_shape = [2, 1], nd_dtype = float32, nd_rows = [None, None]\<rparr>,
        rb_done = \<lparr>nd_shape = [2, 1], nd_dtype = float32, nd_rows = [None, None]\<rparr>,
        rb_next_state = \<lparr>nd_shape = [2, 3], nd_dtype = float32, nd_rows = [None, None]\<rparr>,
        rb_action = None\<rparr>) \<and>
   map_sum id rb_action
     (ReplayBuffer_init 2 (Box [3]) (Box [4]) :: py_error + (nat, nat) ReplayBuffer) =
     Inr (Some \<lparr>nd_shape = [2, 4], nd_dtype = float32, nd_rows = [None, None]\<rparr>) \<and>
   map_sum id rb_action
     (ReplayBuffer_init 2 (Box [3]) (Discrete 5) :: py_error + (nat, nat) ReplayBuffer) =
     Inr (Some \<lparr>nd_shape = [2, 1], nd_dtype = int64, nd_rows = [None, None]\<rparr>)"
  by (simp add: ReplayBuffer_init_def np_empty_def ReplayBuffer_append_def setitem_def
        numeral_2_eq_2)

text \<open>
  Claim C10. For a buffer built for a Box or Discrete action space with
  capacity \<open>C \<ge> 1\<close>, after any appends: one more append stores
  \<^verbatim>\<open>float(reward)\<close> and \<^verbatim>\<open>float(done)\<close> in the slot at the cursor, each
  held as a float32 (the float rounded to the nearest float32) in the one
  cell of a row of shape \<open>(1,)\<close> of a float32 array; for a boolean done flag
  the stored cell is exactly 1 for \<open>True\<close> and exactly 0 for \<open>False\<close>, never a
  boolean. When every appended done flag was boolean, every row of a sampled
  done tensor is the float32 number 0 or the float32 number 1.
\<close>

theorem C10_reward_and_done_stored_as_floats:
  fixes b0 b :: "('s, 'a) ReplayBuffer"
  assumes "1 \<le> C" and "ReplayBuffer_init C ss asp = Inr b0"
    and "asp = Box shp \<or> asp = Discrete m"
    and "append_all b0 ts = Inr b"
  shows "(\<exists>b'. ReplayBuffer_append b s a r d s' = Inr b' \<and>
            row (rb_reward b') (rb_p b) = Some [float32_cast (py_float r)] \<and>
            row (rb_done b') (rb_p b) = Some [float32_cast (py_float d)] \<and>
            (\<forall>f. d = PyBool f \<longrightarrow>
               row (rb_done b') (rb_p b) = Some [F32 (if f then 1 else 0)]) \<and>
            nd_dtype (rb_reward b') = float32 \<and> nd_dtype (rb_done b') = float32 \<and>
            nd_shape (rb_reward b') = [nat C, 1] \<and> nd_shape (rb_done b') = [nat C, 1]) \<and>
         (ts \<noteq> [] \<and> 1 \<le> batch_size \<and> (\<forall>t\<in>set ts. \<exists>f. tr_done t = PyBool f) \<longrightarrow>
            (\<exists>st ac rw dn ns g'.
               ReplayBuffer_sample b batch_size g = Inr ((st, ac, rw, dn, ns), g') \<and>
               nd_dtype rw = float32 \<and> nd_dtype dn = float32 \<and>
               length (nd_rows dn) = nat batch_size \<and>
               (\<forall>k<nat batch_size.
                  nd_rows dn ! k = Some [F32 0] \<or> nd_rows dn ! k = Some [F32 1])))"
proof -
  have h0: "rb_holds b0 []"
    using init_holds [OF assms(1,2)] init_supported [OF assms(2,3)] by simp
  from append_all_holds [OF h0, of ts] assms(4) have h: "rb_holds b ts" by simp
  have C: "rb_buffer_size b = C"
    using append_all_size [OF h0 assms(4)] init_size [OF assms(2)] by simp
  have al: "rb_allocated b" using h by (simp add: rb_holds_def)
  note hd = append_all_header [OF assms(4)] init_header [OF assms(2), of shp m]
  from append_written [OF al holds_bounds [OF h], of s a r d s'] obtain b' where
    ap: "ReplayBuffer_append b s a r d s' = Inr b'"
    and w: "slot b' (rb_p b) = Some (s, a, [float32_cast (py_float r)], [float32_cast (py_float d)], s')"
    by blast
  from slot_fields [OF w] have
    rr: "row (rb_reward b') (rb_p b) = Some [float32_cast (py_float r)]"
    and rd: "row (rb_done b') (rb_p b) = Some [float32_cast (py_float d)]"
    by auto
  have bd: "\<forall>f. d = PyBool f \<longrightarrow> row (rb_done b') (rb_p b) = Some [F32 (if f then 1 else 0)]"
    using rd by (auto simp: float32_cast_0 float32_cast_1)
  have hd': "nd_dtype (rb_reward b') = float32" "nd_dtype (rb_done b') = float32"
    "nd_shape (rb_reward b') = [nat C, 1]" "nd_shape (rb_done b') = [nat C, 1]"
    using append_header [OF ap] hd by simp_all
  have one: "\<exists>b'. ReplayBuffer_append b s a r d s' = Inr b' \<and>
            row (rb_reward b') (rb_p b) = Some [float32_cast (py_float r)] \<and>
            row (rb_done b') (rb_p b) = Some [float32_cast (py_float d)] \<and>
            (\<forall>f. d = PyBool f \<longrightarrow>
               row (rb_done b') (rb_p b) = Some [F32 (if f then 1 else 0)]) \<and>
            nd_dtype (rb_reward b') = float32 \<and> nd_dtype (rb_done b') = float32 \<and>
            nd_shape (rb_reward b') = [nat C, 1] \<and> nd_shape (rb_done b') = [nat C, 1]"
    using ap rr rd bd hd' by blast
  have two: "\<exists>st ac rw dn ns g'.
               ReplayBuffer_sample b batch_size g = Inr ((st, ac, rw, dn, ns), g') \<and>
               nd_dtype rw = float32 \<and> nd_dtype dn = float32 \<and>
               length (nd_rows dn) = nat batch_size \<and>
               (\<forall>k<nat batch_size.
                  nd_rows dn ! k = Some [F32 0] \<or> nd_rows dn ! k = Some [F32 1])"
    if a: "ts \<noteq> [] \<and> 1 \<le> batch_size \<and> (\<forall>t\<in>set ts. \<exists>f. tr_done t = PyBool f)"
  proof -
    have n: "1 \<le> rb_n b"
      using h assms(1) a C by (cases ts) (auto simp: rb_holds_def)
    from a have bs: "1 \<le> batch_size" by simp
    from sample_rows [OF h n bs, of g] obtain idxes arr g' where
      s: "ReplayBuffer_sample b batch_size g =
       Inr ((\<lparr>nd_shape = nat batch_size # tl (nd_shape (rb_state b)),
               nd_dtype = nd_dtype (rb_state b), nd_rows = map (row (rb_state b)) idxes\<rparr>,
             \<lparr>nd_shape = nat batch_size # tl (nd_shape arr),
               nd_dtype = nd_dtype arr, nd_rows = map (row arr) idxes\<rparr>,
             \<lparr>nd_shape = nat batch_size # tl (nd_shape (rb_reward b)),
               nd_dtype = nd_dtype (rb_reward b), nd_rows = map (row (rb_reward b)) idxes\<rparr>,
             \<lparr>nd_shape = nat batch_size # tl (nd_shape (rb_done b)),
               nd_dtype = nd_dtype (rb_done b), nd_rows = map (row (rb_done b)) idxes\<rparr>,
             \<lparr>nd_shape = nat batch_size # tl (nd_shape (rb_next_state b)),
               nd_dtype = nd_dtype (rb_next_state b),
               nd_rows = map (row (rb_next_state b)) idxes\<rparr>), g')"
      and l: "length idxes = nat batch_size"
      and v: "\<And>k. k < nat batch_size \<Longrightarrow>
        (\<exists>j<length ts. slot b (idxes ! k) = Some (stored (ts ! j)))"
      by blast
    have m: "map (row (rb_done b)) idxes ! k = Some [F32 0] \<or>
             map (row (rb_done b)) idxes ! k = Some [F32 1]" if k: "k < nat batch_size" for k
    proof -
      from v [OF k] obtain j where j: "j < length ts"
        and sl: "slot b (idxes ! k) = Some (stored (ts ! j))" by blast
      from slot_fields [OF sl [unfolded stored_def]] have
        r: "row (rb_done b) (idxes ! k) = Some [float32_cast (py_float (tr_done (ts ! j)))]" by auto
      from a j obtain f where "tr_done (ts ! j) = PyBool f" by (meson nth_mem)
      with r bool_mask [of f] k l show ?thesis by auto
    qed
    show ?thesis
      apply (intro exI conjI)
          apply (rule s)
      using hd l m by simp_all
  qed
  from one two show ?thesis by blast
qed

theorem C10_reward_and_done_stored_as_floats_witness:
  "\<exists>b0 b b'.
     (ReplayBuffer_init 2 (Box [1]) (Discrete 3)
        :: py_error + (nat, nat) ReplayBuffer) = Inr b0 \<and>
     append_all b0
       [\<lparr>tr_state = 10, tr_action = 0, tr_reward = PyFloat 1, tr_done = PyBool False,
          tr_next_state = 11\<rparr>] = Inr b \<and>
     ReplayBuffer_append b 11 1 (PyFloat (1 / 10)) (PyBool True) 12 = Inr b' \<and>
     row (rb_reward b') (rb_p b) = Some [F32 (13421773 / 134217728)] \<and>
     row (rb_done b') (rb_p b) = Some [F32 1] \<and>
     nd_dtype (rb_done b') = float32 \<and> nd_shape (rb_done b') = [nat 2, 1]"
proof -
  let ?ts = "[\<lparr>tr_state = 10::nat, tr_action = 0::nat, tr_reward = PyFloat 1,
                tr_done = PyBool False, tr_next_state = 11\<rparr>]"
  obtain b0 :: "(nat, nat) ReplayBuffer" where
    i: "ReplayBuffer_init 2 (Box [1]) (Discrete 3) = Inr b0"
    by (simp add: ReplayBuffer_init_def np_empty_def)
  have h1: "(1::int) \<le> 2" and h3: "Discrete 3 = Box [] \<or> Discrete 3 = Discrete 3"
    by simp_all
  have "rb_holds b0 []"
    using init_holds [OF h1 i] init_supported [OF i h3] by simp
  from append_all_holds [OF this, of ?ts] obtain b where
    b: "append_all b0 ?ts = Inr b" by auto
  from C10_reward_and_done_stored_as_floats [OF h1 i h3 b, of 11 1 "PyFloat (1 / 10)" "PyBool True" 12]
  obtain b' where ap: "ReplayBuffer_append b 11 1 (PyFloat (1 / 10)) (PyBool True) 12 = Inr b'"
    and r: "row (rb_reward b') (rb_p b) = Some [float32_cast (py_float (PyFloat (1 / 10)))]"
    and d: "\<forall>f. PyBool True = PyBool f \<longrightarrow>
              row (rb_done b') (rb_p b) = Some [F32 (if f then 1 else 0)]"
    and t: "nd_dtype (rb_done b') = float32" and sh: "nd_shape (rb_done b') = [nat 2, 1]"
    by blast
  have c: "float32_cast (1 / 10) = F32 (13421773 / 134217728)" by code_simp
  from r have r': "row (rb_reward b') (rb_p b) = Some [F32 (13421773 / 134217728)]"
    by (simp add: c)
  from d [rule_format, OF refl] have d': "row (rb_done b') (rb_p b) = Some [F32 1]" by simp
  show ?thesis
    by (intro exI conjI) (fact i, fact b, fact ap, fact r', fact d', fact t, fact sh)
qed

section \<open>The claims about the algorithm base classes\<close>

text \<open>
  Claim C5. \<^verbatim>\<open>is_update\<close> returns true exactly when the cadence condition
  holds: for an on-policy instance when \<open>env_step mod buffer_size = 0\<close>, for an
  off-policy instance when \<open>env_step mod update_interval = 0\<close> and
  \<open>env_step \<ge> start_steps\<close>; with a modulus other than 0 it returns the truth
  value of the condition (a modulus of 0 makes \<^verbatim>\<open>%\<close> raise). With
  \<open>update_interval = 4\<close> and \<open>start_steps = 10\<close> it is true at \<open>env_step\<close> 12,
  16, 20 and every further multiple of 4, and false for every \<open>env_step\<close> in
  \<open>1..9\<close>.
\<close>

theorem C5_is_update_cadence:
  fixes a :: "('k, 'b) OnPolicyActorCritic" and f :: "('j, 'c) OffPolicyAlgorithm"
  shows
  "(OnPolicyActorCritic_is_update a = Inr True \<longleftrightarrow>
      on_buffer_size a \<noteq> 0 \<and> env_step a mod on_buffer_size a = 0) \<and>
   (on_buffer_size a \<noteq> 0 \<longrightarrow>
      OnPolicyActorCritic_is_update a = Inr (env_step a mod on_buffer_size a = 0)) \<and>
   (OffPolicyAlgorithm_is_update f = Inr True \<longleftrightarrow>
      off_update_interval f \<noteq> 0 \<and> env_step f mod off_update_interval f = 0 \<and>
      off_start_steps f \<le> env_step f) \<and>
   (off_update_interval f \<noteq> 0 \<longrightarrow>
      OffPolicyAlgorithm_is_update f =
        Inr (env_step f mod off_update_interval f = 0 \<and> off_start_steps f \<le> env_step f)) \<and>
   (off_update_interval f = 4 \<and> off_start_steps f = 10 \<longrightarrow>
      OffPolicyAlgorithm_is_update (f\<lparr>env_step := 12\<rparr>) = Inr True \<and>
      OffPolicyAlgorithm_is_update (f\<lparr>env_step := 16\<rparr>) = Inr True \<and>
      OffPolicyAlgorithm_is_update (f\<lparr>env_step := 20\<rparr>) = Inr True \<and>
      (\<forall>k. 3 \<le> k \<longrightarrow> OffPolicyAlgorithm_is_update (f\<lparr>env_step := 4 * k\<rparr>) = Inr True) \<and>
      (\<forall>n. 1 \<le> n \<and> n \<le> 9 \<longrightarrow>
         OffPolicyAlgorithm_is_update (f\<lparr>env_step := n\<rparr>) = Inr False))"
  by (auto simp: OnPolicyActorCritic_is_update_def OffPolicyAlgorithm_is_update_def)

theorem C5_is_update_cadence_witness:
  "OnPolicyActorCritic_is_update
     (\<lparr>env_step = 4096, learning_step = 0, num_steps = 50000, state_space = Box [3],
       action_space = Box [1], gamma = 1, rng = (0::nat), on_buffer = (),
       on_discount = 1, on_buffer_size = 2048, on_batch_size = 64\<rparr>) = Inr True \<and>
   OffPolicyAlgorithm_is_update
     (\<lparr>env_step = 0, learning_step = 0, num_steps = 50000, state_space = Box [3],
       action_space = Box [1], gamma = 1, rng = (0::nat), off_buffer = (), off_discount = 1,
       off_use_per = False, off_batch_size = 256, off_start_steps = 10,
       off_update_interval = 4, off_update_interval_target = None,
       off_update_target_tau = Some (1 / 200)\<rparr>\<lparr>env_step := 12\<rparr>) = Inr True \<and>
   OffPolicyAlgorithm_is_update
     (\<lparr>env_step = 0, learning_step = 0, num_steps = 50000, state_space = Box [3],
       action_space = Box [1], gamma = 1, rng = (0::nat), off_buffer = (), off_discount = 1,
       off_use_per = False, off_batch_size = 256, off_start_steps = 10,
       off_update_interval = 4, off_update_interval_target = None,
       off_update_target_tau = Some (1 / 200)\<rparr>\<lparr>env_step := 8\<rparr>) = Inr False"
proof -
  let ?a = "\<lparr>env_step = 4096, learning_step = 0, num_steps = 50000, state_space = Box [3],
       action_space = Box [1], gamma = 1, rng = (0::nat), on_buffer = (),
       on_discount = 1, on_buffer_size = 2048, on_batch_size = 64\<rparr>"
  let ?f = "\<lparr>env_step = 0, learning_step = 0, num_steps = 50000, state_space = Box [3],
       action_space = Box [1], gamma = 1, rng = (0::nat), off_buffer = (), off_discount = 1,
       off_use_per = False, off_batch_size = 256, off_start_steps = 10,
       off_update_interval = 4, off_update_interval_target = None,
       off_update_target_tau = Some (1 / 200)\<rparr>"
  note T = C5_is_update_cadence [of ?a ?f]
  have h1: "on_buffer_size ?a \<noteq> 0 \<and> env_step ?a mod on_buffer_size ?a = 0" by simp
  have h2: "off_update_interval ?f = 4 \<and> off_start_steps ?f = 10" by simp
  have h3: "(1::int) \<le> 8 \<and> (8::int) \<le> 9" by simp
  from T h1 have c1: "OnPolicyActorCritic_is_update ?a = Inr True" by blast
  from T h2 have c2: "OffPolicyAlgorithm_is_update (?f\<lparr>env_step := 12\<rparr>) = Inr True"
    by blast
  from T h2 have "\<forall>n. 1 \<le> n \<and> n \<le> 9 \<longrightarrow>
         OffPolicyAlgorithm_is_update (?f\<lparr>env_step := n\<rparr>) = Inr False" by blast
  with h3 have c3: "OffPolicyAlgorithm_is_update (?f\<lparr>env_step := 8\<rparr>) = Inr False"
    by blast
  show ?thesis by (intro conjI) (fact c1, fact c2, fact c3)
qed

text \<open>
  Claim C6. In the on-policy and in the off-policy \<^verbatim>\<open>step\<close>, whichever way
  the action was chosen, the mask passed to \<^verbatim>\<open>buffer.append\<close> is the done
  flag the environment returned for that action, except that it is \<open>False\<close>
  when the incremented episode step count \<open>t + 1\<close> equals the maximum episode
  length of the environment.
\<close>

theorem C6_done_mask:
  fixes a :: "('k, 'b) OnPolicyActorCritic" and f :: "('k, 'c) OffPolicyAlgorithm"
    and env :: "('e, 'o, 'a) Env"
  shows
  "(explore_on (rng a) state = ((action, log_pi), k) \<and>
    e_step env (e_state env) action = ((next_state, reward, d), e) \<longrightarrow>
      on_buffer (fst (snd (OnPolicyActorCritic_step explore_on append_on a env state t))) =
        append_on (on_buffer a) state action reward
          (if t + 1 = e_max_episode_steps env then False else d) log_pi next_state) \<and>
   (env_step f + 1 \<le> off_start_steps f \<and>
    e_action_space_sample env (e_state env) = (action, es) \<and>
    e_step env es action = ((next_state, reward, d), e) \<longrightarrow>
      off_buffer (fst (snd (OffPolicyAlgorithm_step explore_off append_off f env state t))) =
        append_off (off_buffer f) state action reward
          (if t + 1 = e_max_episode_steps env then False else d) next_state d) \<and>
   (off_start_steps f < env_step f + 1 \<and>
    explore_off (rng f) state = (action, k) \<and>
    e_step env (e_state env) action = ((next_state, reward, d), e) \<longrightarrow>
      off_buffer (fst (snd (OffPolicyAlgorithm_step explore_off append_off f env state t))) =
        append_off (off_buffer f) state action reward
          (if t + 1 = e_max_episode_steps env then False else d) next_state d)"
  by (auto simp: OnPolicyActorCritic_step_def OffPolicyAlgorithm_step_def Let_def
           split: prod.splits)

theorem C6_done_mask_witness:
  "on_buffer (fst (snd (OnPolicyActorCritic_step
      (\<lambda>k s. ((s + 1, 0::int), Suc k))
      (\<lambda>b s a r m l ns. (s, a, r, m, l, ns) # b)
      \<lparr>env_step = 0, learning_step = 0, num_steps = 50000, state_space = Box [3],
        action_space = Box [1], gamma = 1, rng = (0::nat), on_buffer = [],
        on_discount = 1, on_buffer_size = 2048, on_batch_size = 64\<rparr>
      \<lparr>e_state = (0::nat), e_step = (\<lambda>e a. ((e + a, 1, True), Suc e)),
        e_reset = (\<lambda>e. (0, 0)), e_action_space_sample = (\<lambda>e. (7, e)),
        e_max_episode_steps = 5\<rparr>
      (3::nat) 4))) = [(3, 4, 1, False, 0, 4)] \<and>
   off_buffer (fst (snd (OffPolicyAlgorithm_step
      (\<lambda>k s. (s + 2, Suc k))
      (\<lambda>b s a r m ns d. (s, a, r, m, ns, d) # b)
      \<lparr>env_step = 0, learning_step = 0, num_steps = 50000, state_space = Box [3],
        action_space = Box [1], gamma = 1, rng = (0::nat), off_buffer = [], off_discount = 1,
        off_use_per = False, off_batch_size = 256, off_start_steps = 10,
        off_update_interval = 4, off_update_interval_target = None,
        off_update_target_tau = Some (1 / 200)\<rparr>
      \<lparr>e_state = (0::nat), e_step = (\<lambda>e a. ((e + a, 1, True), Suc e)),
        e_reset = (\<lambda>e. (0, 0)), e_action_space_sample = (\<lambda>e. (7, e)),
        e_max_episode_steps = 5\<rparr>
      (3::nat) 4))) = [(3, 7, 1, False, 7, True)] \<and>
   off_buffer (fst (snd (OffPolicyAlgorithm_step
      (\<lambda>k s. (s + 2, Suc k))
      (\<lambda>b s a r m ns d. (s, a, r, m, ns, d) # b)
      \<lparr>env_step = 10, learning_step = 0, num_steps = 50000, state_space = Box [3],
        action_space = Box [1], gamma = 1, rng = (0::nat), off_buffer = [], off_discount = 1,
        off_use_per = False, off_batch_size = 256, off_start_steps = 10,
        off_update_interval = 4, off_update_interval_target = None,
        off_update_target_tau = Some (1 / 200)\<rparr>
      \<lparr>e_state = (0::nat), e_step = (\<lambda>e a. ((e + a, 1, True), Suc e)),
        e_reset = (\<lambda>e. (0, 0)), e_action_space_sample = (\<lambda>e. (7, e)),
        e_max_episode_steps = 5\<rparr>
      (3::nat) 2))) = [(3, 5, 1, True, 5, True)]"
proof -
  let ?env = "\<lparr>e_state = (0::nat), e_step = (\<lambda>e a. ((e + a, 1::real, True), Suc e)),
        e_reset = (\<lambda>e. (0::nat, 0)), e_action_space_sample = (\<lambda>e. (7::nat, e)),
        e_max_episode_steps = 5\<rparr>"
  let ?a = "\<lparr>env_step = 0, learning_step = 0, num_steps = 50000, state_space = Box [3],
        action_space = Box [1], gamma = 1, rng = (0::nat),
        on_buffer = ([] :: (nat \<times> nat \<times> real \<times> bool \<times> int \<times> nat) list),
        on_discount = 1, on_buffer_size = 2048, on_batch_size = 64\<rparr>"
  let ?f = "\<lparr>env_step = 0, learning_step = 0, num_steps = 50000, state_space = Box [3],
        action_space = Box [1], gamma = 1, rng = (0::nat),
        off_buffer = ([] :: (nat \<times> nat \<times> real \<times> bool \<times> nat \<times> bool) list),
        off_discount = 1,
        off_use_per = False, off_batch_size = 256, off_start_steps = 10,
        off_update_interval = 4, off_update_interval_target = None,
        off_update_target_tau = Some (1 / 200)\<rparr>"
  let ?g = "\<lparr>env_step = 10, learning_step = 0, num_steps = 50000, state_space = Box [3],
        action_space = Box [1], gamma = 1, rng = (0::nat),
        off_buffer = ([] :: (nat \<times> nat \<times> real \<times> bool \<times> nat \<times> bool) list),
        off_discount = 1,
        off_use_per = False, off_batch_size = 256, off_start_steps = 10,
        off_update_interval = 4, off_update_interval_target = None,
        off_update_target_tau = Some (1 / 200)\<rparr>"
  let ?on = "\<lambda>(k::nat) (s::nat). ((s + 1, 0::int), Suc k)"
  let ?off = "\<lambda>(k::nat) (s::nat). (s + 2, Suc k)"
  let ?pon = "\<lambda>b (s::nat) (a::nat) (r::real) (m::bool) (l::int) (ns::nat). (s, a, r, m, l, ns) # b"
  let ?poff = "\<lambda>b (s::nat) (a::nat) (r::real) (m::bool) (ns::nat) (d::bool). (s, a, r, m, ns, d) # b"
  have c1: "on_buffer (fst (snd (OnPolicyActorCritic_step ?on ?pon ?a ?env 3 4))) =
      [(3, 4, 1, False, 0, 4)]"
    using C6_done_mask [where explore_on = "?on" and a = "?a" and state = 3 and action = 4 and log_pi = 0
        and k = 1 and env = "?env" and next_state = 4 and reward = 1 and d = True and e = 1
        and append_on = "?pon" and t = 4 and f = "?f" and es = 0 and explore_off = "?off"
        and append_off = "?poff"]
    by simp
  have c2: "off_buffer (fst (snd (OffPolicyAlgorithm_step ?off ?poff ?f ?env 3 4))) =
      [(3, 7, 1, False, 7, True)]"
    using C6_done_mask [where explore_on = "?on" and a = "?a" and state = 3 and action = 7 and log_pi = 0
        and k = 1 and env = "?env" and next_state = 7 and reward = 1 and d = True and e = 1
        and append_on = "?pon" and t = 4 and f = "?f" and es = 0 and explore_off = "?off"
        and append_off = "?poff"]
    by simp
  have c3: "off_buffer (fst (snd (OffPolicyAlgorithm_step ?off ?poff ?g ?env 3 2))) =
      [(3, 5, 1, True, 5, True)]"
    using C6_done_mask [where explore_on = "?on" and a = "?a" and state = 3 and action = 5 and log_pi = 0
        and k = 1 and env = "?env" and next_state = 5 and reward = 1 and d = True and e = 1
        and append_on = "?pon" and t = 2 and f = "?g" and es = 0 and explore_off = "?off"
        and append_off = "?poff"]
    by simp
  show ?thesis by (intro conjI) (fact c1, fact c2, fact c3)
qed

text \<open>
  Claim C7, as amended. The constructor asserts that at least one of
  \<open>update_interval_target\<close> and \<open>tau\<close> is given and truthy: it fails with the
  \<open>AssertionError\<close> of that assertion, before anything else runs, exactly when
  neither is, and so when neither is supplied. When it returns, a truthy
  interval was stored with the coefficient 1 (hard copy), and otherwise no
  interval is stored and the coefficient is the given \<open>tau\<close>.
\<close>

theorem C7_target_sync_validation:
  fixes per :: "int \<Rightarrow> space \<Rightarrow> space \<Rightarrow> real \<Rightarrow> int \<Rightarrow> real \<Rightarrow> 'b" and seed :: 'k
  shows
  "(OffPolicyAlgorithm_init per rep n_steps ss asp seed gam nstep buf_size use_per bat_size
      start_steps update_interval update_interval_target tau = Inl AssertionError \<longleftrightarrow>
      \<not> (truthy update_interval_target \<or> truthy tau)) \<and>
   OffPolicyAlgorithm_init per rep n_steps ss asp seed gam nstep buf_size use_per bat_size
      start_steps update_interval None None = Inl AssertionError \<and>
   (\<forall>algo. OffPolicyAlgorithm_init per rep n_steps ss asp seed gam nstep buf_size use_per bat_size
        start_steps update_interval update_interval_target tau = Inr algo \<longrightarrow>
      (truthy update_interval_target \<longrightarrow>
         off_update_interval_target algo = update_interval_target \<and>
         off_update_target_tau algo = Some 1) \<and>
      (\<not> truthy update_interval_target \<longrightarrow>
         truthy tau \<and> off_update_interval_target algo = None \<and>
         off_update_target_tau algo = tau))"
  by (auto simp: OffPolicyAlgorithm_init_def py_truediv_def py_pow_def
           split: sum.splits if_splits)

theorem C7_target_sync_validation_witness:
  "OffPolicyAlgorithm_init (\<lambda>buf_size ss asp gam nstep beta_steps. ())
      (\<lambda>buf_size ss asp gam nstep. ()) 50000 (Box [3]) (Box [1]) (0::nat) 1 1 1000 False 256
      1000 1 None None = Inl AssertionError \<and>
   (\<exists>algo. OffPolicyAlgorithm_init (\<lambda>buf_size ss asp gam nstep beta_steps. ())
      (\<lambda>buf_size ss asp gam nstep. ()) 50000 (Box [3]) (Box [1]) (0::nat) 1 1 1000 False 256
      1000 1 None (Some (1 / 200)) = Inr algo \<and>
      off_update_interval_target algo = None \<and> off_update_target_tau algo = Some (1 / 200))"
proof -
  let ?init = "OffPolicyAlgorithm_init (\<lambda>buf_size ss asp gam nstep beta_steps. ())
      (\<lambda>buf_size ss asp gam nstep. ()) 50000 (Box [3]) (Box [1]) (0::nat) 1 1 1000 False 256
      1000 1"
  note T = C7_target_sync_validation [of "\<lambda>buf_size ss asp gam nstep beta_steps. ()"
      "\<lambda>buf_size ss asp gam nstep. ()" 50000 "Box [3]" "Box [1]" "0::nat" 1 1 1000 False 256
      1000 1 None "Some (1 / 200)"]
  have a: "?init None None = Inl AssertionError"
    using T by blast
  obtain algo where i: "?init None (Some (1 / 200)) = Inr algo"
    by (simp add: OffPolicyAlgorithm_init_def py_pow_def)
  have nt: "\<not> truthy (None :: int option)" by simp
  from T i nt have "off_update_interval_target algo = None \<and>
      off_update_target_tau algo = Some (1 / 200)"
    by blast
  with a i show ?thesis by blast
qed

text \<open>
  Claim C7 as stated fails where both are supplied: construction succeeds, the
  interval wins and \<open>tau\<close> is dropped.
\<close>

theorem C7_counterexample:
  "OffPolicyAlgorithm_init (\<lambda>buf_size ss asp gam nstep beta_steps. ())
      (\<lambda>buf_size ss asp gam nstep. ()) 50000 (Box [3]) (Box [1]) (0::nat) 1 1 1000 False 256
      1000 1 (Some 1000) (Some (1 / 200)) =
     Inr \<lparr>env_step = 0, learning_step = 0, num_steps = 50000, state_space = Box [3],
          action_space = Box [1], gamma = 1, rng = 0, off_buffer = (), off_discount = 1,
          off_use_per = False, off_batch_size = 256, off_start_steps = 1000,
          off_update_interval = 1, off_update_interval_target = Some 1000,
          off_update_target_tau = Some 1\<rparr>"
  by (simp add: OffPolicyAlgorithm_init_def py_pow_def)

text \<open>
  Claim C9. Every call of the off-policy \<^verbatim>\<open>step\<close> increments \<open>env_step\<close>.
  While the incremented \<open>env_step\<close> is at most \<open>start_steps\<close> (the first
  \<open>start_steps\<close> calls), it takes its action from
  \<^verbatim>\<open>env.action_space.sample()\<close>: the policy is not consulted (any other policy
  gives the same result and the key sequence is left as it was). After that
  the action is the one \<^verbatim>\<open>explore(state)\<close> returns, the key sequence advances
  and the sampler of the action space is not consulted. That the sampler draws
  uniformly is the contract of the action space, outside the repository.
\<close>

theorem C9_warm_up_actions:
  fixes f :: "('k, 'b) OffPolicyAlgorithm" and env :: "('e, 'o, 'a) Env"
  shows
  "(env_step f + 1 \<le> off_start_steps f \<and>
    e_action_space_sample env (e_state env) = (action, es) \<and>
    e_step env es action = ((next_state, reward, d), e) \<longrightarrow>
      OffPolicyAlgorithm_step explore append_fn f env state t =
        OffPolicyAlgorithm_step other_policy append_fn f env state t \<and>
      rng (fst (snd (OffPolicyAlgorithm_step explore append_fn f env state t))) = rng f \<and>
      env_step (fst (snd (OffPolicyAlgorithm_step explore append_fn f env state t))) =
        env_step f + 1 \<and>
      off_buffer (fst (snd (OffPolicyAlgorithm_step explore append_fn f env state t))) =
        append_fn (off_buffer f) state action reward
          (if t + 1 = e_max_episode_steps env then False else d) next_state d) \<and>
   (off_start_steps f < env_step f + 1 \<and>
    explore (rng f) state = (action, k) \<and>
    e_step env (e_state env) action = ((next_state, reward, d), e) \<longrightarrow>
      rng (fst (snd (OffPolicyAlgorithm_step explore append_fn f env state t))) = k \<and>
      env_step (fst (snd (OffPolicyAlgorithm_step explore append_fn f env state t))) =
        env_step f + 1 \<and>
      OffPolicyAlgorithm_step explore append_fn f env state t =
        (let (r, f', env') = OffPolicyAlgorithm_step explore append_fn f
                (env\<lparr>e_action_space_sample := other_sampler\<rparr>) state t
         in (r, f', env'\<lparr>e_action_space_sample := e_action_space_sample env\<rparr>)) \<and>
      off_buffer (fst (snd (OffPolicyAlgorithm_step explore append_fn f env state t))) =
        append_fn (off_buffer f) state action reward
          (if t + 1 = e_max_episode_steps env then False else d) next_state d)"
  by (auto simp: OffPolicyAlgorithm_step_def Let_def split: prod.splits)

theorem C9_warm_up_actions_witness:
  "OffPolicyAlgorithm_step
      (\<lambda>k s. (s + 2, Suc k))
      (\<lambda>b s a r m ns d. (s, a, r, m, ns, d) # b)
      \<lparr>env_step = 0, learning_step = 0, num_steps = 50000, state_space = Box [3],
        action_space = Box [1], gamma = 1, rng = (0::nat), off_buffer = [], off_discount = 1,
        off_use_per = False, off_batch_size = 256, off_start_steps = 10,
        off_update_interval = 4, off_update_interval_target = None,
        off_update_target_tau = Some (1 / 200)\<rparr>
      \<lparr>e_state = (0::nat), e_step = (\<lambda>e a. ((e + a, 1, True), Suc e)),
        e_reset = (\<lambda>e. (0, 0)), e_action_space_sample = (\<lambda>e. (7, e)),
        e_max_episode_steps = 5\<rparr>
      (3::nat) 4 =
    OffPolicyAlgorithm_step
      (\<lambda>k s. (0, k))
      (\<lambda>b s a r m ns d. (s, a, r, m, ns, d) # b)
      \<lparr>env_step = 0, learning_step = 0, num_steps = 50000, state_space = Box [3],
        action_space = Box [1], gamma = 1, rng = (0::nat), off_buffer = [], off_discount = 1,
        off_use_per = False, off_batch_size = 256, off_start_steps = 10,
        off_update_interval = 4, off_update_interval_target = None,
        off_update_target_tau = Some (1 / 200)\<rparr>
      \<lparr>e_state = (0::nat), e_step = (\<lambda>e a. ((e + a, 1, True), Suc e)),
        e_reset = (\<lambda>e. (0, 0)), e_action_space_sample = (\<lambda>e. (7, e)),
        e_max_episode_steps = 5\<rparr>
      (3::nat) 4 \<and>
   off_buffer (fst (snd (OffPolicyAlgorithm_step
      (\<lambda>k s. (s + 2, Suc k))
      (\<lambda>b s a r m ns d. (s, a, r, m, ns, d) # b)
      \<lparr>env_step = 0, learning_step = 0, num_steps = 50000, state_space = Box [3],
        action_space = Box [1], gamma = 1, rng = (0::nat), off_buffer = [], off_discount = 1,
        off_use_per = False, off_batch_size = 256, off_start_steps = 10,
        off_update_interval = 4, off_update_interval_target = None,
        off_update_target_tau = Some (1 / 200)\<rparr>
      \<lparr>e_state = (0::nat), e_step = (\<lambda>e a. ((e + a, 1, True), Suc e)),
        e_reset = (\<lambda>e. (0, 0)), e_action_space_sample = (\<lambda>e. (7, e)),
        e_max_episode_steps = 5\<rparr>
      (3::nat) 4))) = [(3, 7, 1, False, 7, True)] \<and>
   rng (fst (snd (OffPolicyAlgorithm_step
      (\<lambda>k s. (s + 2, Suc k))
      (\<lambda>b s a r m ns d. (s, a, r, m, ns, d) # b)
      \<lparr>env_step = 10, learning_step = 0, num_steps = 50000, state_space = Box [3],
        action_space = Box [1], gamma = 1, rng = (0::nat), off_buffer = [], off_discount = 1,
        off_use_per = False, off_batch_size = 256, off_start_steps = 10,
        off_update_interval = 4, off_update_interval_target = None,
        off_update_target_tau = Some (1 / 200)\<rparr>
      \<lparr>e_state = (0::nat), e_step = (\<lambda>e a. ((e + a, 1, True), Suc e)),
        e_reset = (\<lambda>e. (0, 0)), e_action_space_sample = (\<lambda>e. (7, e)),
        e_max_episode_steps = 5\<rparr>
      (3::nat) 2))) = 1 \<and>
   off_buffer (fst (snd (OffPolicyAlgorithm_step
      (\<lambda>k s. (s + 2, Suc k))
      (\<lambda>b s a r m ns d. (s, a, r, m, ns, d) # b)
      \<lparr>env_step = 10, learning_step = 0, num_steps = 50000, state_space = Box [3],
        action_space = Box [1], gamma = 1, rng = (0::nat), off_buffer = [], off_discount = 1,
        off_use_per = False, off_batch_size = 256, off_start_steps = 10,
        off_update_interval = 4, off_update_interval_target = None,
        off_update_target_tau = Some (1 / 200)\<rparr>
      \<lparr>e_state = (0::nat), e_step = (\<lambda>e a. ((e + a, 1, True), Suc e)),
        e_reset = (\<lambda>e. (0, 0)), e_action_space_sample = (\<lambda>e. (7, e)),
        e_max_episode_steps = 5\<rparr>
      (3::nat) 2))) = [(3, 5, 1, True, 5, True)]"
proof -
  let ?env = "\<lparr>e_state = (0::nat), e_step = (\<lambda>e a. ((e + a, 1::real, True), Suc e)),
        e_reset = (\<lambda>e. (0::nat, 0)), e_action_space_sample = (\<lambda>e. (7::nat, e)),
        e_max_episode_steps = 5\<rparr>"
  let ?f = "\<lparr>env_step = 0, learning_step = 0, num_steps = 50000, state_space = Box [3],
        action_space = Box [1], gamma = 1, rng = (0::nat),
        off_buffer = ([] :: (nat \<times> nat \<times> real \<times> bool \<times> nat \<times> bool) list),
        off_discount = 1,
        off_use_per = False, off_batch_size = 256, off_start_steps = 10,
        off_update_interval = 4, off_update_interval_target = None,
        off_update_target_tau = Some (1 / 200)\<rparr>"
  let ?g = "\<lparr>env_step = 10, learning_step = 0, num_steps = 50000, state_space = Box [3],
        action_space = Box [1], gamma = 1, rng = (0::nat),
        off_buffer = ([] :: (nat \<times> nat \<times> real \<times> bool \<times> nat \<times> bool) list),
        off_discount = 1,
        off_use_per = False, off_batch_size = 256, off_start_steps = 10,
        off_update_interval = 4, off_update_interval_target = None,
        off_update_target_tau = Some (1 / 200)\<rparr>"
  let ?off = "\<lambda>(k::nat) (s::nat). (s + 2, Suc k)"
  let ?zero = "\<lambda>(k::nat) (s::nat). (0::nat, k)"
  let ?poff = "\<lambda>b (s::nat) (a::nat) (r::real) (m::bool) (ns::nat) (d::bool). (s, a, r, m, ns, d) # b"
  note W = C9_warm_up_actions [where explore = "?off" and append_fn = "?poff" and f = "?f"
      and env = "?env" and state = 3 and t = 4 and action = 7 and es = 0 and e = 1
      and next_state = 7 and reward = 1 and d = True and k = 1 and other_policy = "?zero"
      and other_sampler = "\<lambda>e. (0, e)"]
  note P = C9_warm_up_actions [where explore = "?off" and append_fn = "?poff" and f = "?g"
      and env = "?env" and state = 3 and t = 2 and action = 5 and es = 0 and e = 1
      and next_state = 5 and reward = 1 and d = True and k = 1 and other_policy = "?zero"
      and other_sampler = "\<lambda>e. (0, e)"]
  have hw: "env_step ?f + 1 \<le> off_start_steps ?f \<and>
    e_action_space_sample ?env (e_state ?env) = (7, 0) \<and>
    e_step ?env 0 7 = ((7, 1, True), 1)" by simp
  have hp: "off_start_steps ?g < env_step ?g + 1 \<and>
    ?off (rng ?g) 3 = (5, 1) \<and>
    e_step ?env (e_state ?env) 5 = ((5, 1, True), 1)" by simp
  from W hw have c1: "OffPolicyAlgorithm_step ?off ?poff ?f ?env 3 4 =
      OffPolicyAlgorithm_step ?zero ?poff ?f ?env 3 4" by blast
  from W hw have "off_buffer (fst (snd (OffPolicyAlgorithm_step ?off ?poff ?f ?env 3 4))) =
      ?poff (off_buffer ?f) 3 7 1 (if 4 + 1 = e_max_episode_steps ?env then False else True)
        7 True" by blast
  then have c2: "off_buffer (fst (snd (OffPolicyAlgorithm_step ?off ?poff ?f ?env 3 4))) =
      [(3, 7, 1, False, 7, True)]" by simp
  from P hp have c3: "rng (fst (snd (OffPolicyAlgorithm_step ?off ?poff ?g ?env 3 2))) = 1"
    by blast
  from P hp have "off_buffer (fst (snd (OffPolicyAlgorithm_step ?off ?poff ?g ?env 3 2))) =
      ?poff (off_buffer ?g) 3 5 1 (if 2 + 1 = e_max_episode_steps ?env then False else True)
        5 True" by blast
  then have c4: "off_buffer (fst (snd (OffPolicyAlgorithm_step ?off ?poff ?g ?env 3 2))) =
      [(3, 5, 1, True, 5, True)]" by simp
  show ?thesis by (intro conjI) (fact c1, fact c2, fact c3, fact c4)
qed

end
